theory Spec2Isabelle
  imports Main "HOL-Library.Word" "HOL-Library.State_Monad"
begin

unbundle bit_operations_syntax

section \<open>The AC200 Ethernet PHY driver (drivers/net/phy/ac200.c)\<close>

text \<open>
  The driver is a straight-line sequence of calls into the rest of the kernel: the
  parent MFD driver (\<open>ac200_reg_write\<close>, \<open>ac200_reg_mod\<close>), the MDIO layer
  (\<open>phy_read\<close>, \<open>phy_write\<close>), the NVMEM framework, the allocator and the PHY core.
  None of these is part of the driver. They are modelled as an arbitrary state machine:
  a record of transition functions over a hidden kernel state of any type \<open>'k\<close>.
  The driver threads that state through its calls and, next to it, a trace that logs
  every call with its arguments and its result, in program order. All statements about
  what the driver "writes" or "registers" are statements about that trace.

  There is one AC200 and one PHY, so the handles \<open>ac200\<close>, \<open>priv\<close>, \<open>phydev\<close> that the
  C code passes around are not modelled.
\<close>

subsection \<open>Machine integers\<close>

type_synonym u16 = "16 word"
type_synonym u32 = "32 word"
type_synonym c_int = "32 word"      \<comment> \<open>C \<open>int\<close>; \<open>sint\<close> reads its value\<close>
type_synonym c_uint = "32 word"     \<comment> \<open>C \<open>unsigned int\<close>\<close>
type_synonym c_ulong = "64 word"    \<comment> \<open>C \<open>unsigned long\<close>, the type of \<open>BIT(n)\<close>\<close>

text \<open>\<open>#define BIT(nr) (1UL << (nr))\<close>\<close>

definition BIT :: "nat \<Rightarrow> c_ulong" where
  "BIT nr = push_bit nr 1"

text \<open>Error numbers used by the driver (errno-base.h).\<close>

definition ENOMEM :: c_int where "ENOMEM = 12"
definition EINVAL :: c_int where "EINVAL = 22"

subsection \<open>Constants of the driver\<close>

definition AC200_EPHY_ID :: u32 where "AC200_EPHY_ID = 0x00441400"
definition AC200_EPHY_ID_MASK :: u32 where "AC200_EPHY_ID_MASK = 0x0ffffff0"

text \<open>System EPHY control 0 register.\<close>

definition AC200_EPHY_RESET_INVALID :: c_ulong where "AC200_EPHY_RESET_INVALID = BIT 0"
definition AC200_EPHY_SYSCLK_GATING :: c_ulong where "AC200_EPHY_SYSCLK_GATING = BIT 1"

text \<open>System EPHY control 1 register.\<close>

definition AC200_EPHY_E_EPHY_MII_IO_EN :: c_ulong where "AC200_EPHY_E_EPHY_MII_IO_EN = BIT 0"
definition AC200_EPHY_E_LNK_LED_IO_EN :: c_ulong where "AC200_EPHY_E_LNK_LED_IO_EN = BIT 1"
definition AC200_EPHY_E_SPD_LED_IO_EN :: c_ulong where "AC200_EPHY_E_SPD_LED_IO_EN = BIT 2"
definition AC200_EPHY_E_DPX_LED_IO_EN :: c_ulong where "AC200_EPHY_E_DPX_LED_IO_EN = BIT 3"

text \<open>
  EPHY control register. The two function-like macros take and return \<open>int\<close>:
  \<open>#define AC200_EPHY_ADDR(x) (((x) & 0x1F) << 4)\<close> and
  \<open>#define AC200_EPHY_CALIB(x) (((x) & 0xF) << 12)\<close>.
\<close>

definition AC200_EPHY_SHUTDOWN :: c_ulong where "AC200_EPHY_SHUTDOWN = BIT 0"
definition AC200_EPHY_LED_POL :: c_ulong where "AC200_EPHY_LED_POL = BIT 1"
definition AC200_EPHY_CLK_SEL :: c_ulong where "AC200_EPHY_CLK_SEL = BIT 2"
definition AC200_EPHY_XMII_SEL :: c_ulong where "AC200_EPHY_XMII_SEL = BIT 11"

definition AC200_EPHY_ADDR :: "c_int \<Rightarrow> c_int" where
  "AC200_EPHY_ADDR x = push_bit 4 (x AND 0x1F)"

definition AC200_EPHY_CALIB :: "c_int \<Rightarrow> c_int" where
  "AC200_EPHY_CALIB x = push_bit 12 (x AND 0xF)"

text \<open>
  The register numbers \<open>AC200_SYS_EPHY_CTL0\<close>, \<open>AC200_SYS_EPHY_CTL1\<close> and
  \<open>AC200_EPHY_CTL\<close> come from linux/mfd/ac200.h, which is not among the sources; the
  driver only ever names them, so they are kept as names.
\<close>

datatype ac200_reg = AC200_SYS_EPHY_CTL0 | AC200_SYS_EPHY_CTL1 | AC200_EPHY_CTL

text \<open>
  \<open>phy_interface_t\<close> (linux/phy.h). The driver compares the mode with
  \<open>PHY_INTERFACE_MODE_RMII\<close> only; the modes it does not name are told apart by their
  number.
\<close>

datatype phy_interface_t =
    PHY_INTERFACE_MODE_NA
  | PHY_INTERFACE_MODE_INTERNAL
  | PHY_INTERFACE_MODE_MII
  | PHY_INTERFACE_MODE_GMII
  | PHY_INTERFACE_MODE_RMII
  | PHY_INTERFACE_MODE_OTHER nat

subsection \<open>Data passed to and from the kernel\<close>

text \<open>
  The error codes a pointer can carry (linux/err.h): \<open>IS_ERR(p)\<close> holds exactly when \<open>p\<close>,
  read as a signed number, lies in \<open>-MAX_ERRNO .. -1\<close>, with \<open>MAX_ERRNO\<close> 4095. The type
  \<open>errno\<close> has these codes and no others; \<open>errno_code\<close> gives the code as the \<open>int\<close> that
  \<open>PTR_ERR\<close> yields.
\<close>

typedef errno = "{e :: c_int. - 4095 \<le> sint e \<and> sint e < 0}"
  morphisms errno_code errno_of
  by (rule exI [of _ "- 1"]) simp

setup_lifting type_definition_errno

text \<open>\<open>-ENOENT\<close> and \<open>-EIO\<close>, two codes the kernels below fail with.\<close>

lift_definition neg_ENOENT :: errno is "- 2"
  by simp

lift_definition neg_EIO :: errno is "- 5"
  by simp

text \<open>
  A pointer that may carry an error: either \<open>ERR_PTR e\<close>, for which \<open>IS_ERR\<close> holds and
  \<open>PTR_ERR\<close> is \<open>errno_code e\<close>, or any other pointer value, \<open>PTR x\<close>, for which \<open>IS_ERR\<close>
  does not hold and which gives access to some contents \<open>x\<close>. The test \<open>IS_ERR(p)\<close>
  followed by \<open>PTR_ERR(p)\<close> is a case distinction on such a value.
\<close>

datatype 'a err_ptr = ERR_PTR errno | PTR 'a

text \<open>
  What \<open>nvmem_cell_read\<close> hands back on success: the length stored in \<open>callen\<close> and the
  buffer, of which the driver only ever reads \<open>*caldata\<close>, the first 16-bit unit.
\<close>

record nvmem_buf =
  callen :: nat
  caldata :: u16

text \<open>The callbacks a \<open>struct phy_driver\<close> of this module can point to.\<close>

datatype callback =
    Genphy_soft_reset | Ac200_ephy_config_init | Genphy_suspend | Genphy_resume

text \<open>The fields of \<open>struct phy_driver\<close> that probe fills in; \<open>devm_kzalloc\<close> zeroed the rest.\<close>

record phy_driver =
  phy_id :: u32
  phy_id_mask :: u32
  name :: string
  soft_reset :: "callback option"
  config_init :: "callback option"
  suspend :: "callback option"
  resume :: "callback option"

definition ac200_phy_name :: string where
  "ac200_phy_name = ''AC200 EPHY''"

subsection \<open>The trace and the kernel\<close>

text \<open>One event per call that leaves the driver, with its arguments and what it returned.\<close>

datatype event =
    Devm_kzalloc bool                          \<comment> \<open>\<open>True\<close>: a non-NULL pointer came back\<close>
  | Devm_nvmem_cell_get string "unit err_ptr"
  | Nvmem_cell_read "nvmem_buf err_ptr"
  | Kfree
  | Dev_err string
  | Platform_set_drvdata
  | Ac200_reg_write ac200_reg u16 c_int
  | Ac200_reg_mod ac200_reg u16 u16 c_int      \<comment> \<open>register, mask, value, status\<close>
  | Phy_write u32 u16 c_int
  | Phy_read u32 c_int
  | Phy_driver_register phy_driver c_int
  | Phy_driver_unregister

text \<open>
  The kernel side: each function the driver calls, as a transition on the hidden state
  that also yields the function's result. Functions returning \<open>void\<close> share \<open>k_void\<close>,
  which is told the event.
\<close>

record 'k kernel =
  k_devm_kzalloc :: "'k \<Rightarrow> bool \<times> 'k"
  k_devm_nvmem_cell_get :: "string \<Rightarrow> 'k \<Rightarrow> unit err_ptr \<times> 'k"
  k_nvmem_cell_read :: "'k \<Rightarrow> nvmem_buf err_ptr \<times> 'k"
  k_ac200_reg_write :: "ac200_reg \<Rightarrow> u16 \<Rightarrow> 'k \<Rightarrow> c_int \<times> 'k"
  k_ac200_reg_mod :: "ac200_reg \<Rightarrow> u16 \<Rightarrow> u16 \<Rightarrow> 'k \<Rightarrow> c_int \<times> 'k"
  k_phy_write :: "u32 \<Rightarrow> u16 \<Rightarrow> 'k \<Rightarrow> c_int \<times> 'k"
  k_phy_read :: "u32 \<Rightarrow> 'k \<Rightarrow> c_int \<times> 'k"
  k_phy_driver_register :: "phy_driver \<Rightarrow> 'k \<Rightarrow> c_int \<times> 'k"
  k_void :: "event \<Rightarrow> 'k \<Rightarrow> 'k"

record 'k world =
  kstate :: 'k
  trace :: "event list"

text \<open>A call that returns a value: run the kernel's transition, log the event.\<close>

definition kcall :: "('k \<Rightarrow> 'r \<times> 'k) \<Rightarrow> ('r \<Rightarrow> event) \<Rightarrow> ('k world, 'r) state" where
  "kcall f ev = State (\<lambda>w. case f (kstate w) of
     (r, k') \<Rightarrow> (r, \<lparr>kstate = k', trace = trace w @ [ev r]\<rparr>))"

text \<open>A call that returns nothing.\<close>

definition kcall_void :: "'k kernel \<Rightarrow> event \<Rightarrow> ('k world, unit) state" where
  "kcall_void K ev = State (\<lambda>w.
     ((), \<lparr>kstate = k_void K ev (kstate w), trace = trace w @ [ev]\<rparr>))"

definition devm_kzalloc :: "'k kernel \<Rightarrow> ('k world, bool) state" where
  "devm_kzalloc K = kcall (k_devm_kzalloc K) Devm_kzalloc"

definition devm_nvmem_cell_get :: "'k kernel \<Rightarrow> string \<Rightarrow> ('k world, unit err_ptr) state" where
  "devm_nvmem_cell_get K cell_id =
     kcall (k_devm_nvmem_cell_get K cell_id) (Devm_nvmem_cell_get cell_id)"

definition nvmem_cell_read :: "'k kernel \<Rightarrow> ('k world, nvmem_buf err_ptr) state" where
  "nvmem_cell_read K = kcall (k_nvmem_cell_read K) Nvmem_cell_read"

definition kfree :: "'k kernel \<Rightarrow> ('k world, unit) state" where
  "kfree K = kcall_void K Kfree"

definition dev_err :: "'k kernel \<Rightarrow> string \<Rightarrow> ('k world, unit) state" where
  "dev_err K msg = kcall_void K (Dev_err msg)"

definition platform_set_drvdata :: "'k kernel \<Rightarrow> ('k world, unit) state" where
  "platform_set_drvdata K = kcall_void K Platform_set_drvdata"

definition ac200_reg_write :: "'k kernel \<Rightarrow> ac200_reg \<Rightarrow> u16 \<Rightarrow> ('k world, c_int) state" where
  "ac200_reg_write K reg val = kcall (k_ac200_reg_write K reg val) (Ac200_reg_write reg val)"

definition ac200_reg_mod ::
  "'k kernel \<Rightarrow> ac200_reg \<Rightarrow> u16 \<Rightarrow> u16 \<Rightarrow> ('k world, c_int) state" where
  "ac200_reg_mod K reg msk val =
     kcall (k_ac200_reg_mod K reg msk val) (Ac200_reg_mod reg msk val)"

definition phy_write :: "'k kernel \<Rightarrow> u32 \<Rightarrow> u16 \<Rightarrow> ('k world, c_int) state" where
  "phy_write K regnum val = kcall (k_phy_write K regnum val) (Phy_write regnum val)"

definition phy_read :: "'k kernel \<Rightarrow> u32 \<Rightarrow> ('k world, c_int) state" where
  "phy_read K regnum = kcall (k_phy_read K regnum) (Phy_read regnum)"

definition phy_driver_register :: "'k kernel \<Rightarrow> phy_driver \<Rightarrow> ('k world, c_int) state" where
  "phy_driver_register K drv = kcall (k_phy_driver_register K drv) (Phy_driver_register drv)"

definition phy_driver_unregister :: "'k kernel \<Rightarrow> ('k world, unit) state" where
  "phy_driver_unregister K = kcall_void K Phy_driver_unregister"

subsection \<open>The driver\<close>

text \<open>
  \<open>value\<close> is an \<open>unsigned int\<close>: it takes the \<open>int\<close> that \<open>phy_read\<close> returns bit for bit,
  is widened to \<open>unsigned long\<close> for the \<open>&\<close> with \<open>~BIT(3)\<close>, cut back to 32 bits by the
  assignment and to 16 bits by the \<open>u16\<close> parameter of \<open>phy_write\<close>.
\<close>

definition disable_intelligent_ieee :: "'k kernel \<Rightarrow> ('k world, unit) state" where
  "disable_intelligent_ieee K = do {
     _ \<leftarrow> phy_write K 0x1f 0x0100;
     r \<leftarrow> phy_read K 0x17;
     let (v :: c_uint) = r;
     let (v :: c_uint) = ucast ((ucast v :: c_ulong) AND NOT (BIT 3));
     _ \<leftarrow> phy_write K 0x17 (ucast v);
     _ \<leftarrow> phy_write K 0x1f 0x0000;
     State_Monad.return ()
   }"

definition disable_802_3az_ieee :: "'k kernel \<Rightarrow> ('k world, unit) state" where
  "disable_802_3az_ieee K = do {
     _ \<leftarrow> phy_write K 0xd 0x7;
     _ \<leftarrow> phy_write K 0xe 0x3c;
     _ \<leftarrow> phy_write K 0xd (ucast (BIT 14 OR 0x7));
     r \<leftarrow> phy_read K 0xe;
     let (v :: c_uint) = r;
     let (v :: c_uint) = ucast ((ucast v :: c_ulong) AND NOT (BIT 1));
     _ \<leftarrow> phy_write K 0xd 0x7;
     _ \<leftarrow> phy_write K 0xe 0x3c;
     _ \<leftarrow> phy_write K 0xd (ucast (BIT 14 OR 0x7));
     _ \<leftarrow> phy_write K 0xe (ucast v);
     _ \<leftarrow> phy_write K 0x1f 0x0200;
     _ \<leftarrow> phy_write K 0x18 0x0000;
     State_Monad.return ()
   }"

text \<open>
  In \<open>ac200_ephy_config_init\<close> \<open>value\<close> is a \<open>u16\<close>: the result of \<open>phy_read\<close> is cut to 16
  bits when it is stored.
\<close>

definition ac200_ephy_config_init ::
  "'k kernel \<Rightarrow> phy_interface_t \<Rightarrow> ('k world, c_int) state" where
  "ac200_ephy_config_init K interface = do {
     _ \<leftarrow> phy_write K 0x1f 0x0100;
     _ \<leftarrow> phy_write K 0x12 0x4824;

     _ \<leftarrow> phy_write K 0x1f 0x0200;
     _ \<leftarrow> phy_write K 0x18 0x0000;

     _ \<leftarrow> phy_write K 0x1f 0x0600;
     _ \<leftarrow> phy_write K 0x14 0x708f;
     _ \<leftarrow> phy_write K 0x13 0xF000;
     _ \<leftarrow> phy_write K 0x15 0x1530;

     _ \<leftarrow> phy_write K 0x1f 0x0800;
     _ \<leftarrow> phy_write K 0x18 0x00bc;

     _ \<leftarrow> disable_intelligent_ieee K;
     _ \<leftarrow> disable_802_3az_ieee K;
     _ \<leftarrow> phy_write K 0x1f 0x0000;

     let (v :: u16) = (if interface = PHY_INTERFACE_MODE_RMII
                        then ucast AC200_EPHY_XMII_SEL else 0);
     _ \<leftarrow> ac200_reg_mod K AC200_EPHY_CTL (ucast AC200_EPHY_XMII_SEL) v;

     r \<leftarrow> phy_read K 0x13;
     let (v :: u16) = ucast r;
     let (v :: u16) = ucast ((ucast v :: c_ulong) OR BIT 12);
     _ \<leftarrow> phy_write K 0x13 v;

     State_Monad.return 0
   }"

text \<open>
  \<open>calib = *caldata + 3\<close>: the \<open>u16\<close> is promoted to \<open>int\<close>, 3 is added, and the sum is cut
  to 16 bits by the assignment to the \<open>u16\<close> \<open>calib\<close>. In the argument of the last
  \<open>ac200_reg_write\<close> the \<open>int\<close> results of the two macros are converted to
  \<open>unsigned long\<close> (sign-extending) for the \<open>|\<close> with the \<open>BIT\<close> constants, and the whole
  is cut to the \<open>u16\<close> parameter.
\<close>

definition ac200_ephy_probe :: "'k kernel \<Rightarrow> ('k world, c_int) state" where
  "ac200_ephy_probe K = do {
     priv \<leftarrow> devm_kzalloc K;
     if \<not> priv then State_Monad.return (- ENOMEM) else do {
     ephy \<leftarrow> devm_kzalloc K;
     if \<not> ephy then State_Monad.return (- ENOMEM) else do {
     calcell \<leftarrow> devm_nvmem_cell_get K ''ephy_calib'';
     case calcell of
       ERR_PTR e \<Rightarrow> do {
         _ \<leftarrow> dev_err K (''Unable to find calibration data!'' @ [CHR 0x0A]);
         State_Monad.return (errno_code e)
       }
     | PTR _ \<Rightarrow> do {
     cal \<leftarrow> nvmem_cell_read K;
     case cal of
       ERR_PTR e \<Rightarrow> do {
         _ \<leftarrow> dev_err K (''Unable to read calibration data!'' @ [CHR 0x0A]);
         State_Monad.return (errno_code e)
       }
     | PTR buf \<Rightarrow>
     if callen buf \<noteq> 2 then do {
       _ \<leftarrow> dev_err K (''Calibration data has wrong length: 2 != %lu'' @ [CHR 0x0A]);
       State_Monad.return (- EINVAL)
     } else do {
     let (calib :: u16) = ucast ((ucast (caldata buf) :: c_int) + 3);
     _ \<leftarrow> kfree K;

     let drv = \<lparr>phy_id = AC200_EPHY_ID,
                phy_id_mask = AC200_EPHY_ID_MASK,
                name = ac200_phy_name,
                soft_reset = Some Genphy_soft_reset,
                config_init = Some Ac200_ephy_config_init,
                suspend = Some Genphy_suspend,
                resume = Some Genphy_resume\<rparr>;

     _ \<leftarrow> platform_set_drvdata K;

     ret \<leftarrow> ac200_reg_write K AC200_SYS_EPHY_CTL0
              (ucast (AC200_EPHY_RESET_INVALID OR AC200_EPHY_SYSCLK_GATING));
     if ret \<noteq> 0 then State_Monad.return ret else do {

     ret \<leftarrow> ac200_reg_write K AC200_SYS_EPHY_CTL1
              (ucast (AC200_EPHY_E_EPHY_MII_IO_EN OR AC200_EPHY_E_LNK_LED_IO_EN OR
                      AC200_EPHY_E_SPD_LED_IO_EN OR AC200_EPHY_E_DPX_LED_IO_EN));
     if ret \<noteq> 0 then State_Monad.return ret else do {

     ret \<leftarrow> ac200_reg_write K AC200_EPHY_CTL
              (ucast (AC200_EPHY_LED_POL OR AC200_EPHY_CLK_SEL OR
                      (scast (AC200_EPHY_ADDR 1) :: c_ulong) OR
                      (scast (AC200_EPHY_CALIB (ucast calib)) :: c_ulong)));
     if ret \<noteq> 0 then State_Monad.return ret else do {

     ret \<leftarrow> phy_driver_register K drv;
     if ret \<noteq> 0 then do {
       _ \<leftarrow> dev_err K (''Unable to register phy'' @ [CHR 0x0A]);
       State_Monad.return ret
     } else
       State_Monad.return 0
     }}}}}}}
   }"

definition ac200_ephy_remove :: "'k kernel \<Rightarrow> ('k world, c_int) state" where
  "ac200_ephy_remove K = do {
     _ \<leftarrow> phy_driver_unregister K;
     _ \<leftarrow> ac200_reg_write K AC200_EPHY_CTL (ucast AC200_EPHY_SHUTDOWN);
     _ \<leftarrow> ac200_reg_write K AC200_SYS_EPHY_CTL1 0;
     _ \<leftarrow> ac200_reg_write K AC200_SYS_EPHY_CTL0 0;
     State_Monad.return 0
   }"

subsection \<open>Observing a run\<close>

text \<open>What a driver function returns when started in world \<open>w\<close>.\<close>

definition result :: "('s, 'a) state \<Rightarrow> 's \<Rightarrow> 'a" where
  "result m w = fst (run_state m w)"

text \<open>The events a driver function adds to the trace when started in world \<open>w\<close>.\<close>

definition emitted :: "('k world, 'a) state \<Rightarrow> 'k world \<Rightarrow> event list" where
  "emitted m w = drop (length (trace w)) (trace (snd (run_state m w)))"

text \<open>Both together: the observable behaviour of one call of a driver function.\<close>

definition run :: "('k world, 'a) state \<Rightarrow> 'k world \<Rightarrow> 'a \<times> event list" where
  "run m w = (result m w, emitted m w)"

text \<open>The hidden state the kernel is left in.\<close>

definition final_state :: "('k world, 'a) state \<Rightarrow> 'k world \<Rightarrow> 'k" where
  "final_state m w = kstate (snd (run_state m w))"

text \<open>
  The register accesses in a trace, without the status that a write returned: what was
  written where, and what each read returned.
\<close>

datatype access =
    Mdio_write u32 u16
  | Mdio_read u32 c_int
  | Reg_write ac200_reg u16
  | Reg_mod ac200_reg u16 u16

fun accesses :: "event list \<Rightarrow> access list" where
  "accesses [] = []"
| "accesses (Phy_write regnum val _ # evs) = Mdio_write regnum val # accesses evs"
| "accesses (Phy_read regnum r # evs) = Mdio_read regnum r # accesses evs"
| "accesses (Ac200_reg_write reg val _ # evs) = Reg_write reg val # accesses evs"
| "accesses (Ac200_reg_mod reg msk val _ # evs) = Reg_mod reg msk val # accesses evs"
| "accesses (_ # evs) = accesses evs"

fun is_read :: "access \<Rightarrow> bool" where
  "is_read (Mdio_read _ _) = True"
| "is_read _ = False"

definition reads :: "event list \<Rightarrow> access list" where
  "reads evs = filter is_read (accesses evs)"

definition writes :: "event list \<Rightarrow> access list" where
  "writes evs = filter (\<lambda>a. \<not> is_read a) (accesses evs)"

text \<open>The register an access goes to: an MDIO register number or an AC200 register.\<close>

datatype target = Mdio u32 | Ac200 ac200_reg

fun target_of :: "access \<Rightarrow> target" where
  "target_of (Mdio_write regnum _) = Mdio regnum"
| "target_of (Mdio_read regnum _) = Mdio regnum"
| "target_of (Reg_write reg _) = Ac200 reg"
| "target_of (Reg_mod reg _ _) = Ac200 reg"

text \<open>
  A function \<open>m\<close> has outcome \<open>Q\<close> when, from every world, it returns some \<open>r\<close> having
  appended some events \<open>evs\<close> to the trace, with \<open>Q r evs\<close>.
\<close>

definition outcome :: "('k world, 'a) state \<Rightarrow> ('a \<Rightarrow> event list \<Rightarrow> bool) \<Rightarrow> bool" where
  "outcome m Q =
     (\<forall>w. \<exists>r evs w'. run_state m w = (r, w') \<and> trace w' = trace w @ evs \<and> Q r evs)"

subsection \<open>The paths through the driver\<close>

text \<open>
  The driver has no loops, so each function has finitely many paths. They are written
  out here as predicates on the result and the emitted events; the lemmas
  \<open>probe_outcome\<close> and \<open>config_init_outcome\<close> below prove that every run of the model
  above follows one of them. The claims are then read off the paths.
\<close>

text \<open>The \<open>struct phy_driver\<close> that probe hands to \<open>phy_driver_register\<close>.\<close>

definition probe_drv :: phy_driver where
  "probe_drv = \<lparr>phy_id = AC200_EPHY_ID,
                phy_id_mask = AC200_EPHY_ID_MASK,
                name = ac200_phy_name,
                soft_reset = Some Genphy_soft_reset,
                config_init = Some Ac200_ephy_config_init,
                suspend = Some Genphy_suspend,
                resume = Some Genphy_resume\<rparr>"

text \<open>The events of probe up to its first register write, once the cell was read.\<close>

definition probe_prefix :: "nvmem_buf \<Rightarrow> event list" where
  "probe_prefix buf =
     [Devm_kzalloc True, Devm_kzalloc True, Devm_nvmem_cell_get ''ephy_calib'' (PTR ()),
      Nvmem_cell_read (PTR buf), Kfree, Platform_set_drvdata]"

text \<open>The ten ways probe can go, in the order of its \<open>return\<close> statements.\<close>

definition probe_paths :: "c_int \<Rightarrow> event list \<Rightarrow> bool" where
  "probe_paths ret evs \<longleftrightarrow>
     (ret = - ENOMEM \<and> evs = [Devm_kzalloc False])
   \<or> (ret = - ENOMEM \<and> evs = [Devm_kzalloc True, Devm_kzalloc False])
   \<or> (\<exists>e. ret = errno_code e \<and> evs = [Devm_kzalloc True, Devm_kzalloc True,
         Devm_nvmem_cell_get ''ephy_calib'' (ERR_PTR e),
         Dev_err (''Unable to find calibration data!'' @ [CHR 0x0A])])
   \<or> (\<exists>e. ret = errno_code e \<and> evs = [Devm_kzalloc True, Devm_kzalloc True,
         Devm_nvmem_cell_get ''ephy_calib'' (PTR ()), Nvmem_cell_read (ERR_PTR e),
         Dev_err (''Unable to read calibration data!'' @ [CHR 0x0A])])
   \<or> (\<exists>buf. callen buf \<noteq> 2 \<and> ret = - EINVAL \<and> evs = [Devm_kzalloc True, Devm_kzalloc True,
         Devm_nvmem_cell_get ''ephy_calib'' (PTR ()), Nvmem_cell_read (PTR buf),
         Dev_err (''Calibration data has wrong length: 2 != %lu'' @ [CHR 0x0A])])
   \<or> (\<exists>buf r. callen buf = 2 \<and> r \<noteq> 0 \<and> ret = r \<and> evs = probe_prefix buf @
         [Ac200_reg_write AC200_SYS_EPHY_CTL0 3 r])
   \<or> (\<exists>buf r. callen buf = 2 \<and> r \<noteq> 0 \<and> ret = r \<and> evs = probe_prefix buf @
         [Ac200_reg_write AC200_SYS_EPHY_CTL0 3 0, Ac200_reg_write AC200_SYS_EPHY_CTL1 0xF r])
   \<or> (\<exists>buf r. callen buf = 2 \<and> r \<noteq> 0 \<and> ret = r \<and> evs = probe_prefix buf @
         [Ac200_reg_write AC200_SYS_EPHY_CTL0 3 0, Ac200_reg_write AC200_SYS_EPHY_CTL1 0xF 0,
          Ac200_reg_write AC200_EPHY_CTL (push_bit 12 (caldata buf + 3) OR 0x16) r])
   \<or> (\<exists>buf r. callen buf = 2 \<and> r \<noteq> 0 \<and> ret = r \<and> evs = probe_prefix buf @
         [Ac200_reg_write AC200_SYS_EPHY_CTL0 3 0, Ac200_reg_write AC200_SYS_EPHY_CTL1 0xF 0,
          Ac200_reg_write AC200_EPHY_CTL (push_bit 12 (caldata buf + 3) OR 0x16) 0,
          Phy_driver_register probe_drv r, Dev_err (''Unable to register phy'' @ [CHR 0x0A])])
   \<or> (\<exists>buf. callen buf = 2 \<and> ret = 0 \<and> evs = probe_prefix buf @
         [Ac200_reg_write AC200_SYS_EPHY_CTL0 3 0, Ac200_reg_write AC200_SYS_EPHY_CTL1 0xF 0,
          Ac200_reg_write AC200_EPHY_CTL (push_bit 12 (caldata buf + 3) OR 0x16) 0,
          Phy_driver_register probe_drv 0])"

text \<open>
  The one path of \<open>ac200_ephy_config_init\<close>: its register accesses as a function of the
  interface mode and of what its three reads returned (register 0x17 on page 1, the MMD
  data register 0xe, and register 0x13).
\<close>

definition config_init_accesses ::
  "phy_interface_t \<Rightarrow> c_int \<Rightarrow> c_int \<Rightarrow> c_int \<Rightarrow> access list" where
  "config_init_accesses interface r17 re r13 =
     [Mdio_write 0x1f 0x0100, Mdio_write 0x12 0x4824,
      Mdio_write 0x1f 0x0200, Mdio_write 0x18 0x0000,
      Mdio_write 0x1f 0x0600, Mdio_write 0x14 0x708f, Mdio_write 0x13 0xF000,
      Mdio_write 0x15 0x1530,
      Mdio_write 0x1f 0x0800, Mdio_write 0x18 0x00bc,
      Mdio_write 0x1f 0x0100, Mdio_read 0x17 r17, Mdio_write 0x17 (unset_bit 3 (ucast r17)),
      Mdio_write 0x1f 0x0000,
      Mdio_write 0xd 0x7, Mdio_write 0xe 0x3c, Mdio_write 0xd 0x4007, Mdio_read 0xe re,
      Mdio_write 0xd 0x7, Mdio_write 0xe 0x3c, Mdio_write 0xd 0x4007,
      Mdio_write 0xe (unset_bit 1 (ucast re)),
      Mdio_write 0x1f 0x0200, Mdio_write 0x18 0x0000,
      Mdio_write 0x1f 0x0000,
      Reg_mod AC200_EPHY_CTL 0x800 (if interface = PHY_INTERFACE_MODE_RMII then 0x800 else 0),
      Mdio_read 0x13 r13, Mdio_write 0x13 (set_bit 12 (ucast r13))]"

text \<open>
  Modelled from the spec: \<open>ac200_reg_mod\<close> is defined in the parent MFD driver
  (drivers/mfd/ac200.c), which is not among the sources. It is called as
  \<open>ac200_reg_mod(ac200, reg, mask, value)\<close> and described as an update of the bits of
  \<open>reg\<close> selected by \<open>mask\<close> that modifies no other bit: the register's new contents
  after an update that took effect, from its old contents.
\<close>

definition ac200_reg_mod_value :: "u16 \<Rightarrow> u16 \<Rightarrow> u16 \<Rightarrow> u16" where
  "ac200_reg_mod_value old msk val = (old AND NOT msk) OR (val AND msk)"

subsection \<open>Kernels to run the driver against\<close>

text \<open>
  A kernel without state whose functions return fixed results: the cell lookup gives
  \<open>cell\<close>, the cell read gives \<open>buf\<close>, a write to AC200 register \<open>reg\<close> gives \<open>wr reg\<close>,
  driver registration gives \<open>rg\<close>, every MDIO write gives \<open>pw\<close> and every MDIO read
  \<open>pr\<close>. Allocation and \<open>ac200_reg_mod\<close> succeed.
\<close>

definition fixed_kernel ::
  "unit err_ptr \<Rightarrow> nvmem_buf err_ptr \<Rightarrow> (ac200_reg \<Rightarrow> c_int) \<Rightarrow> c_int \<Rightarrow> c_int \<Rightarrow> c_int
     \<Rightarrow> unit kernel" where
  "fixed_kernel cell buf wr rg pw pr =
     \<lparr>k_devm_kzalloc = (\<lambda>k. (True, k)),
      k_devm_nvmem_cell_get = (\<lambda>_ k. (cell, k)),
      k_nvmem_cell_read = (\<lambda>k. (buf, k)),
      k_ac200_reg_write = (\<lambda>reg _ k. (wr reg, k)),
      k_ac200_reg_mod = (\<lambda>_ _ _ k. (0, k)),
      k_phy_write = (\<lambda>_ _ k. (pw, k)),
      k_phy_read = (\<lambda>_ k. (pr, k)),
      k_phy_driver_register = (\<lambda>_ k. (rg, k)),
      k_void = (\<lambda>_ k. k)\<rparr>"

text \<open>Everything succeeds; the calibration cell holds two bytes, the value \<open>v\<close>.\<close>

definition good_kernel :: "u16 \<Rightarrow> unit kernel" where
  "good_kernel v = fixed_kernel (PTR ()) (PTR \<lparr>callen = 2, caldata = v\<rparr>) (\<lambda>_. 0) 0 0 0"

text \<open>As \<open>good_kernel 0\<close>, but every write to an AC200 register fails with \<open>-EIO\<close>.\<close>

definition failing_reg_kernel :: "unit kernel" where
  "failing_reg_kernel =
     fixed_kernel (PTR ()) (PTR \<lparr>callen = 2, caldata = 0\<rparr>) (\<lambda>_. - 5) 0 0 0"

text \<open>As \<open>good_kernel 0\<close>, but every MDIO write fails with \<open>-EIO\<close>.\<close>

definition failing_mdio_kernel :: "unit kernel" where
  "failing_mdio_kernel =
     fixed_kernel (PTR ()) (PTR \<lparr>callen = 2, caldata = 0\<rparr>) (\<lambda>_. 0) 0 (- 5) 0"

text \<open>The cell lookup fails with \<open>-ENOENT\<close>.\<close>

definition no_cell_kernel :: "unit kernel" where
  "no_cell_kernel =
     fixed_kernel (ERR_PTR neg_ENOENT) (PTR \<lparr>callen = 2, caldata = 0\<rparr>) (\<lambda>_. 0) 0 0 0"

text \<open>The cell is found, reading it fails with \<open>-EIO\<close>.\<close>

definition unreadable_cell_kernel :: "unit kernel" where
  "unreadable_cell_kernel = fixed_kernel (PTR ()) (ERR_PTR neg_EIO) (\<lambda>_. 0) 0 0 0"

text \<open>The cell is read, but is four bytes long.\<close>

definition long_cell_kernel :: "unit kernel" where
  "long_cell_kernel =
     fixed_kernel (PTR ()) (PTR \<lparr>callen = 4, caldata = 0\<rparr>) (\<lambda>_. 0) 0 0 0"

text \<open>Only the write to \<open>AC200_SYS_EPHY_CTL1\<close> fails, with \<open>-EIO\<close>.\<close>

definition failing_ctl1_kernel :: "unit kernel" where
  "failing_ctl1_kernel =
     fixed_kernel (PTR ()) (PTR \<lparr>callen = 2, caldata = 0\<rparr>)
       (\<lambda>reg. if reg = AC200_SYS_EPHY_CTL1 then - 5 else 0) 0 0 0"

text \<open>Only \<open>phy_driver_register\<close> fails, with \<open>-EBUSY\<close>.\<close>

definition failing_register_kernel :: "unit kernel" where
  "failing_register_kernel =
     fixed_kernel (PTR ()) (PTR \<lparr>callen = 2, caldata = 0\<rparr>) (\<lambda>_. 0) (- 16) 0 0"

definition w0 :: "unit world" where
  "w0 = \<lparr>kstate = (), trace = []\<rparr>"

subsection \<open>Kernels that hold registers\<close>

text \<open>
  Modelled from the spec: \<open>ac200_reg_mod\<close> and \<open>ac200_reg_write\<close> are defined in the parent MFD
  driver (drivers/mfd/ac200.c), which is not among the sources. Here the hidden state is
  the contents of the AC200 registers. A write stores its value. \<open>ac200_reg_mod\<close> returns
  \<open>mod_status\<close>: when that is 0 it has replaced the register by \<open>ac200_reg_mod_value\<close> of its
  old contents, when it is an error the register is as it was. The MDIO side has no
  state and succeeds, every read returning 0.
\<close>

definition mfd_kernel :: "c_int \<Rightarrow> (ac200_reg \<Rightarrow> u16) kernel" where
  "mfd_kernel mod_status =
     \<lparr>k_devm_kzalloc = (\<lambda>k. (True, k)),
      k_devm_nvmem_cell_get = (\<lambda>_ k. (PTR (), k)),
      k_nvmem_cell_read = (\<lambda>k. (PTR \<lparr>callen = 2, caldata = 0\<rparr>, k)),
      k_ac200_reg_write = (\<lambda>reg val k. (0, k(reg := val))),
      k_ac200_reg_mod = (\<lambda>reg msk val k.
         if mod_status = 0
         then (0, k(reg := ac200_reg_mod_value (k reg) msk val))
         else (mod_status, k)),
      k_phy_write = (\<lambda>_ _ k. (0, k)),
      k_phy_read = (\<lambda>_ k. (0, k)),
      k_phy_driver_register = (\<lambda>_ k. (0, k)),
      k_void = (\<lambda>_ k. k)\<rparr>"

text \<open>
  A kernel whose hidden state is the contents of the MDIO registers, told apart by
  register number alone (neither the paging through register 0x1f nor the MMD
  indirection is modelled). \<open>phy_write\<close> stores its value and succeeds; \<open>phy_read\<close> returns
  the register's 16 bits as a non-negative \<open>int\<close> when \<open>read_status\<close> is 0, and the error
  \<open>read_status\<close> otherwise. The AC200 side has no state and succeeds.
\<close>

definition mdio_kernel :: "c_int \<Rightarrow> (u32 \<Rightarrow> u16) kernel" where
  "mdio_kernel read_status =
     \<lparr>k_devm_kzalloc = (\<lambda>k. (True, k)),
      k_devm_nvmem_cell_get = (\<lambda>_ k. (PTR (), k)),
      k_nvmem_cell_read = (\<lambda>k. (PTR \<lparr>callen = 2, caldata = 0\<rparr>, k)),
      k_ac200_reg_write = (\<lambda>_ _ k. (0, k)),
      k_ac200_reg_mod = (\<lambda>_ _ _ k. (0, k)),
      k_phy_write = (\<lambda>regnum val k. (0, k(regnum := val))),
      k_phy_read = (\<lambda>regnum k.
         (if read_status = 0 then ucast (k regnum) else read_status, k)),
      k_phy_driver_register = (\<lambda>_ k. (0, k)),
      k_void = (\<lambda>_ k. k)\<rparr>"

text \<open>The world with an empty trace in which every register holds \<open>v\<close>.\<close>

definition all_registers :: "u16 \<Rightarrow> ('r \<Rightarrow> u16) world" where
  "all_registers v = \<lparr>kstate = (\<lambda>_. v), trace = []\<rparr>"


section \<open>Reasoning about runs\<close>

lemma outcomeD: "outcome m Q \<Longrightarrow> Q (result m w) (emitted m w)"
  unfolding outcome_def result_def emitted_def
  by (erule allE [of _ w]) auto

lemma outcome_return: "Q x [] \<Longrightarrow> outcome (State_Monad.return x) Q"
  by (simp add: outcome_def)

lemma outcome_bind:
  assumes "outcome m (\<lambda>r evs. outcome (f r) (\<lambda>r' evs'. Q r' (evs @ evs')))"
  shows "outcome (State_Monad.bind m f) Q"
  unfolding outcome_def
proof
  fix w
  from assms obtain r evs w' where m: "run_state m w = (r, w')" "trace w' = trace w @ evs"
    and f: "outcome (f r) (\<lambda>r' evs'. Q r' (evs @ evs'))"
    unfolding outcome_def by blast
  from f obtain r' evs' w'' where
    "run_state (f r) w' = (r', w'')" "trace w'' = trace w' @ evs'" "Q r' (evs @ evs')"
    unfolding outcome_def by blast
  with m show "\<exists>r evs w'. run_state (State_Monad.bind m f) w = (r, w') \<and>
      trace w' = trace w @ evs \<and> Q r evs"
    by simp
qed

lemma outcome_kcall: "(\<And>r. Q r [ev r]) \<Longrightarrow> outcome (kcall f ev) Q"
  by (simp add: outcome_def kcall_def split: prod.splits)

lemma outcome_kcall_void: "Q () [ev] \<Longrightarrow> outcome (kcall_void K ev) Q"
  by (simp add: outcome_def kcall_void_def)

lemma outcome_if:
  "(c \<Longrightarrow> outcome a Q) \<Longrightarrow> (\<not> c \<Longrightarrow> outcome b Q) \<Longrightarrow> outcome (if c then a else b) Q"
  by simp

lemma outcome_case_err_ptr:
  "(\<And>e. p = ERR_PTR e \<Longrightarrow> outcome (f e) Q) \<Longrightarrow> (\<And>x. p = PTR x \<Longrightarrow> outcome (g x) Q)
     \<Longrightarrow> outcome (case p of ERR_PTR e \<Rightarrow> f e | PTR x \<Rightarrow> g x) Q"
  by (cases p) simp_all

lemmas outcome_rules =
  outcome_bind outcome_kcall outcome_kcall_void outcome_return outcome_if outcome_case_err_ptr

lemmas kernel_calls =
  devm_kzalloc_def devm_nvmem_cell_get_def nvmem_cell_read_def kfree_def dev_err_def
  platform_set_drvdata_def ac200_reg_write_def ac200_reg_mod_def phy_write_def phy_read_def
  phy_driver_register_def phy_driver_unregister_def

text \<open>Evaluating a run against a concrete kernel.\<close>

lemmas constant_defs =
  AC200_EPHY_RESET_INVALID_def AC200_EPHY_SYSCLK_GATING_def AC200_EPHY_E_EPHY_MII_IO_EN_def
  AC200_EPHY_E_LNK_LED_IO_EN_def AC200_EPHY_E_SPD_LED_IO_EN_def AC200_EPHY_E_DPX_LED_IO_EN_def
  AC200_EPHY_SHUTDOWN_def AC200_EPHY_LED_POL_def AC200_EPHY_CLK_SEL_def AC200_EPHY_XMII_SEL_def
  AC200_EPHY_ADDR_def AC200_EPHY_CALIB_def BIT_def ENOMEM_def EINVAL_def

lemmas run_simps =
  run_def result_def emitted_def kernel_calls kcall_def kcall_void_def fixed_kernel_def
  good_kernel_def failing_reg_kernel_def failing_mdio_kernel_def no_cell_kernel_def
  unreadable_cell_kernel_def long_cell_kernel_def failing_ctl1_kernel_def
  failing_register_kernel_def w0_def Let_def

lemma run_collapse: "run m w = (fst (run m w), snd (run m w))"
  by simp

lemma outcome_run: "outcome m Q \<Longrightarrow> run m w = (r, evs) \<Longrightarrow> Q r evs"
  using outcomeD [of m Q w] by (simp add: run_def)

section \<open>Integer conversions in the driver\<close>

lemma lt16:
  "(k::nat) < LENGTH(16) \<Longrightarrow> k \<in> {0, 1, 2, 3, 4, 5, 6, 7, 8, 9, 10, 11, 12, 13, 14, 15}"
  by simp arith

text \<open>\<open>value &= ~BIT(n)\<close> on an \<open>unsigned int\<close> that is then passed as a \<open>u16\<close>.\<close>

lemma clear_bit_u16:
  "n < 16 \<Longrightarrow>
   (ucast (ucast ((ucast (r :: c_int) :: c_ulong) AND NOT (BIT n)) :: c_uint) :: u16)
     = unset_bit n (ucast r)"
  unfolding BIT_def by (rule bit_word_eqI) (auto simp add: bit_simps)

text \<open>\<open>value |= BIT(n)\<close> on a \<open>u16\<close>.\<close>

lemma set_bit_u16:
  "n < 16 \<Longrightarrow>
   (ucast ((ucast (ucast (r :: c_int) :: u16) :: c_ulong) OR BIT n) :: u16)
     = set_bit n (ucast r)"
  unfolding BIT_def by (rule bit_word_eqI) (auto simp add: bit_simps)

text \<open>\<open>calib = *caldata + 3\<close>: addition in \<open>int\<close>, cut to 16 bits, is addition in \<open>u16\<close>.\<close>

lemma calib_u16: "(ucast ((ucast (v :: u16) :: c_int) + 3) :: u16) = v + 3"
  by transfer (simp add: take_bit_eq_mod mod_simps)

text \<open>The value probe writes to \<open>AC200_EPHY_CTL\<close>.\<close>

lemma ephy_ctl_value:
  "(ucast (AC200_EPHY_LED_POL OR AC200_EPHY_CLK_SEL OR
           (scast (AC200_EPHY_ADDR 1) :: c_ulong) OR
           (scast (AC200_EPHY_CALIB (ucast c)) :: c_ulong)) :: u16)
     = push_bit 12 c OR 0x16"
  unfolding AC200_EPHY_LED_POL_def AC200_EPHY_CLK_SEL_def AC200_EPHY_ADDR_def
    AC200_EPHY_CALIB_def BIT_def
  apply (rule bit_word_eqI)
  subgoal for n
    apply (drule lt16)
    apply (elim insertE emptyE; simp add: bit_simps)
    done
  done

lemma calib_field: "drop_bit 12 (push_bit 12 c OR 0x16 :: u16) = take_bit 4 c"
  apply (rule bit_word_eqI)
  subgoal for n
    apply (drule lt16)
    apply (elim insertE emptyE; simp add: bit_simps)
    done
  done

lemma drop_push_12: "drop_bit 12 (push_bit 12 c :: u16) = take_bit 4 c"
  by (rule bit_word_eqI) (auto simp add: bit_simps)

lemma push_low4: "push_bit 12 (c :: u16) = push_bit 12 (take_bit 4 c)"
  by (rule bit_word_eqI) (auto simp add: bit_simps)

lemma unat_low4: "unat (take_bit 4 (v + 3 :: u16)) = (unat v + 3) mod 16"
  by (simp add: unat_word_ariths unsigned_take_bit_eq take_bit_eq_mod mod_mod_cancel)

lemma low4_cong:
  assumes "unat (v :: u16) mod 16 = unat (v' :: u16) mod 16"
  shows "take_bit 4 (v + 3) = take_bit 4 (v' + 3)"
proof -
  have "unat (take_bit 4 (v + 3)) = unat (take_bit 4 (v' + 3))"
    unfolding unat_low4 using assms by (metis mod_add_left_eq)
  then show ?thesis by (simp add: word_unat_eq_iff)
qed

lemma ctl0_value:
  "(ucast (AC200_EPHY_RESET_INVALID OR AC200_EPHY_SYSCLK_GATING) :: u16) = 3"
  by (simp add: AC200_EPHY_RESET_INVALID_def AC200_EPHY_SYSCLK_GATING_def BIT_def)

lemma ctl1_value:
  "(ucast (AC200_EPHY_E_EPHY_MII_IO_EN OR AC200_EPHY_E_LNK_LED_IO_EN OR
           AC200_EPHY_E_SPD_LED_IO_EN OR AC200_EPHY_E_DPX_LED_IO_EN) :: u16) = 0xF"
  by (simp add: AC200_EPHY_E_EPHY_MII_IO_EN_def AC200_EPHY_E_LNK_LED_IO_EN_def
      AC200_EPHY_E_SPD_LED_IO_EN_def AC200_EPHY_E_DPX_LED_IO_EN_def BIT_def)

lemma xmii_sel_value: "(ucast AC200_EPHY_XMII_SEL :: u16) = 0x800"
  by (simp add: AC200_EPHY_XMII_SEL_def BIT_def)

lemma shutdown_value: "(ucast AC200_EPHY_SHUTDOWN :: u16) = 1"
  by (simp add: AC200_EPHY_SHUTDOWN_def BIT_def)

lemma mmd_data_value: "(ucast (BIT 14 OR 0x7) :: u16) = 0x4007"
  by (simp add: BIT_def)

section \<open>Every run follows one of the paths\<close>

lemma probe_outcome: "outcome (ac200_ephy_probe K) probe_paths"
  unfolding ac200_ephy_probe_def kernel_calls Let_def
  apply (intro outcome_rules)
  apply (simp_all add: probe_paths_def probe_prefix_def probe_drv_def calib_u16
      ephy_ctl_value ctl0_value ctl1_value)
  done

lemma config_init_outcome:
  "outcome (ac200_ephy_config_init K i)
     (\<lambda>r evs. r = 0 \<and> length evs = 28 \<and>
        (\<exists>r17 re r13. accesses evs = config_init_accesses i r17 re r13))"
  unfolding ac200_ephy_config_init_def disable_intelligent_ieee_def disable_802_3az_ieee_def
    kernel_calls Let_def
  apply (intro outcome_rules)
  apply (simp add: config_init_accesses_def clear_bit_u16 set_bit_u16 xmii_sel_value
      mmd_data_value)
  done

section \<open>Bring-up: \<open>ac200_ephy_probe\<close>\<close>

subsection \<open>Runs against the concrete kernels\<close>

lemma run_good:
  "run (ac200_ephy_probe (good_kernel v)) w0 =
     (0, probe_prefix \<lparr>callen = 2, caldata = v\<rparr> @
         [Ac200_reg_write AC200_SYS_EPHY_CTL0 3 0, Ac200_reg_write AC200_SYS_EPHY_CTL1 0xF 0,
          Ac200_reg_write AC200_EPHY_CTL (push_bit 12 (v + 3) OR 0x16) 0,
          Phy_driver_register probe_drv 0])"
  by (simp add: ac200_ephy_probe_def run_simps probe_prefix_def probe_drv_def
      ctl0_value ctl1_value ephy_ctl_value calib_u16)

lemma run_no_cell:
  "run (ac200_ephy_probe no_cell_kernel) w0 =
     (- 2, [Devm_kzalloc True, Devm_kzalloc True,
            Devm_nvmem_cell_get ''ephy_calib'' (ERR_PTR neg_ENOENT),
            Dev_err (''Unable to find calibration data!'' @ [CHR 0x0A])])"
  by (simp add: ac200_ephy_probe_def run_simps constant_defs neg_ENOENT.rep_eq)

lemma run_unreadable_cell:
  "run (ac200_ephy_probe unreadable_cell_kernel) w0 =
     (- 5, [Devm_kzalloc True, Devm_kzalloc True,
            Devm_nvmem_cell_get ''ephy_calib'' (PTR ()), Nvmem_cell_read (ERR_PTR neg_EIO),
            Dev_err (''Unable to read calibration data!'' @ [CHR 0x0A])])"
  by (simp add: ac200_ephy_probe_def run_simps constant_defs neg_EIO.rep_eq)

lemma run_long_cell:
  "run (ac200_ephy_probe long_cell_kernel) w0 =
     (- 22, [Devm_kzalloc True, Devm_kzalloc True,
             Devm_nvmem_cell_get ''ephy_calib'' (PTR ()),
             Nvmem_cell_read (PTR \<lparr>callen = 4, caldata = 0\<rparr>),
             Dev_err (''Calibration data has wrong length: 2 != %lu'' @ [CHR 0x0A])])"
  by (simp add: ac200_ephy_probe_def run_simps constant_defs)

lemma run_failing_ctl1:
  "run (ac200_ephy_probe failing_ctl1_kernel) w0 =
     (- 5, probe_prefix \<lparr>callen = 2, caldata = 0\<rparr> @
         [Ac200_reg_write AC200_SYS_EPHY_CTL0 3 0,
          Ac200_reg_write AC200_SYS_EPHY_CTL1 0xF (- 5)])"
  by (simp add: ac200_ephy_probe_def run_simps constant_defs probe_prefix_def)

lemma run_failing_register:
  "run (ac200_ephy_probe failing_register_kernel) w0 =
     (- 16, probe_prefix \<lparr>callen = 2, caldata = 0\<rparr> @
         [Ac200_reg_write AC200_SYS_EPHY_CTL0 3 0, Ac200_reg_write AC200_SYS_EPHY_CTL1 0xF 0,
          Ac200_reg_write AC200_EPHY_CTL 0x3016 0,
          Phy_driver_register probe_drv (- 16),
          Dev_err (''Unable to register phy'' @ [CHR 0x0A])])"
  by (simp add: ac200_ephy_probe_def run_simps constant_defs probe_prefix_def probe_drv_def)

subsection \<open>The calibration value\<close>

text \<open>
  C1, as stated, fails: the claim is that a successful probe writes the 16-bit value of
  the cell, unmodified, into the calibration field. With a cell holding 0 probe
  succeeds and writes 0x3016 to \<open>AC200_EPHY_CTL\<close>, whose calibration field (bits 15:12)
  is 3, not 0.
\<close>

theorem calibration_field_counterexample:
  "fst (run (ac200_ephy_probe (good_kernel 0)) w0) = 0 \<and>
   Nvmem_cell_read (PTR \<lparr>callen = 2, caldata = 0\<rparr>)
     \<in> set (snd (run (ac200_ephy_probe (good_kernel 0)) w0)) \<and>
   Ac200_reg_write AC200_EPHY_CTL 0x3016 0
     \<in> set (snd (run (ac200_ephy_probe (good_kernel 0)) w0)) \<and>
   drop_bit 12 (0x3016 :: u16) \<noteq> caldata \<lparr>callen = 2, caldata = 0\<rparr>"
  by (simp add: run_good probe_prefix_def)

text \<open>
  C1, amended. In every run of probe that returns 0 and in which the cell was read, the
  cell was two bytes long, probe accessed \<open>AC200_EPHY_CTL\<close> exactly once, by a write, and
  the calibration field of the value written (bits 15:12) holds the low four bits of
  the cell's 16-bit value plus 3.
\<close>

theorem probe_calibration_field:
  assumes "run (ac200_ephy_probe K) w = (0, evs)"
    and "Nvmem_cell_read (PTR buf) \<in> set evs"
  shows "callen buf = 2 \<and>
         (\<exists>x. filter (\<lambda>a. target_of a = Ac200 AC200_EPHY_CTL) (accesses evs)
                 = [Reg_write AC200_EPHY_CTL x]
             \<and> drop_bit 12 x = take_bit 4 (caldata buf + 3))"
  using outcome_run [OF probe_outcome assms(1)] assms(2)
  unfolding probe_paths_def probe_prefix_def
  by (elim disjE exE conjE; simp add: EINVAL_def ENOMEM_def drop_push_12)

text \<open>A cell holding 5: the field written is 8.\<close>

theorem probe_calibration_field_witness:
  "run (ac200_ephy_probe (good_kernel 5)) w0
     = (0, snd (run (ac200_ephy_probe (good_kernel 5)) w0))
   \<and> Nvmem_cell_read (PTR \<lparr>callen = 2, caldata = 5\<rparr>)
       \<in> set (snd (run (ac200_ephy_probe (good_kernel 5)) w0))
   \<and> (\<exists>x. filter (\<lambda>a. target_of a = Ac200 AC200_EPHY_CTL)
             (accesses (snd (run (ac200_ephy_probe (good_kernel 5)) w0)))
           = [Reg_write AC200_EPHY_CTL x]
         \<and> drop_bit 12 x = (8 :: u16))"
proof -
  have 1: "run (ac200_ephy_probe (good_kernel 5)) w0
             = (0, snd (run (ac200_ephy_probe (good_kernel 5)) w0))"
    by (simp add: run_good)
  have 2: "Nvmem_cell_read (PTR \<lparr>callen = 2, caldata = 5\<rparr>)
             \<in> set (snd (run (ac200_ephy_probe (good_kernel 5)) w0))"
    by (simp add: run_good probe_prefix_def)
  show ?thesis
    using 1 2 probe_calibration_field [OF 1 2] by simp
qed

text \<open>
  C9. Whenever probe gets as far as writing \<open>AC200_EPHY_CTL\<close>, with \<open>v\<close> the 16-bit value
  read from the cell, bits 15:12 of the value written are \<open>(v + 3) mod 16\<close>; and two runs
  whose cell values are congruent modulo 16 write the same value to the register.
\<close>

theorem calibration_mod_16:
  assumes "run (ac200_ephy_probe K) w = (ret, evs)"
    and "Nvmem_cell_read (PTR buf) \<in> set evs"
    and "Ac200_reg_write AC200_EPHY_CTL x s \<in> set evs"
    and "run (ac200_ephy_probe K') w' = (ret', evs')"
    and "Nvmem_cell_read (PTR buf') \<in> set evs'"
    and "Ac200_reg_write AC200_EPHY_CTL x' s' \<in> set evs'"
  shows "unat (drop_bit 12 x) = (unat (caldata buf) + 3) mod 16 \<and>
         (unat (caldata buf) mod 16 = unat (caldata buf') mod 16 \<longrightarrow> x = x')"
proof -
  have x: "x = push_bit 12 (caldata buf + 3) OR 0x16"
    using outcome_run [OF probe_outcome assms(1)] assms(2,3)
    unfolding probe_paths_def probe_prefix_def
    by (elim disjE exE conjE; simp; blast?)
  have x': "x' = push_bit 12 (caldata buf' + 3) OR 0x16"
    using outcome_run [OF probe_outcome assms(4)] assms(5,6)
    unfolding probe_paths_def probe_prefix_def
    by (elim disjE exE conjE; simp; blast?)
  have "unat (drop_bit 12 x) = (unat (caldata buf) + 3) mod 16"
    by (simp only: x calib_field unat_low4)
  moreover have "x = x'" if "unat (caldata buf) mod 16 = unat (caldata buf') mod 16"
    using low4_cong [OF that] push_low4 [of "caldata buf + 3"]
      push_low4 [of "caldata buf' + 3"]
    by (simp only: x x')
  ultimately show ?thesis by blast
qed

text \<open>Cells holding 0x0005 and 0xFFF5: both runs write 0x8016, field 8.\<close>

theorem calibration_mod_16_witness:
  "Nvmem_cell_read (PTR \<lparr>callen = 2, caldata = 0x0005\<rparr>)
     \<in> set (snd (run (ac200_ephy_probe (good_kernel 0x0005)) w0))
   \<and> Ac200_reg_write AC200_EPHY_CTL 0x8016 0
       \<in> set (snd (run (ac200_ephy_probe (good_kernel 0x0005)) w0))
   \<and> Nvmem_cell_read (PTR \<lparr>callen = 2, caldata = 0xFFF5\<rparr>)
       \<in> set (snd (run (ac200_ephy_probe (good_kernel 0xFFF5)) w0))
   \<and> Ac200_reg_write AC200_EPHY_CTL 0x8016 0
       \<in> set (snd (run (ac200_ephy_probe (good_kernel 0xFFF5)) w0))
   \<and> unat (0x0005 :: u16) mod 16 = unat (0xFFF5 :: u16) mod 16
   \<and> unat (drop_bit 12 (0x8016 :: u16)) = (unat (0x0005 :: u16) + 3) mod 16"
proof -
  have 1: "Nvmem_cell_read (PTR \<lparr>callen = 2, caldata = 0x0005\<rparr>)
             \<in> set (snd (run (ac200_ephy_probe (good_kernel 0x0005)) w0))"
    "Ac200_reg_write AC200_EPHY_CTL 0x8016 0
       \<in> set (snd (run (ac200_ephy_probe (good_kernel 0x0005)) w0))"
    by (simp_all add: run_good probe_prefix_def)
  have 2: "Nvmem_cell_read (PTR \<lparr>callen = 2, caldata = 0xFFF5\<rparr>)
             \<in> set (snd (run (ac200_ephy_probe (good_kernel 0xFFF5)) w0))"
    "Ac200_reg_write AC200_EPHY_CTL 0x8016 0
       \<in> set (snd (run (ac200_ephy_probe (good_kernel 0xFFF5)) w0))"
    by (simp_all add: run_good probe_prefix_def)
  have 3: "unat (0x0005 :: u16) mod 16 = unat (0xFFF5 :: u16) mod 16"
    by simp
  show ?thesis
    using 1 2 3 calibration_mod_16 [OF run_collapse 1 run_collapse 2]
    by simp
qed

subsection \<open>Failures\<close>

lemma errno_code_range: "- 4095 \<le> sint (errno_code e) \<and> sint (errno_code e) < 0"
  using errno_code [of e] by simp

text \<open>
  C2. In every run of probe: if the cell lookup returned an error pointer, or the cell
  read returned one, probe returns the error code that pointer carries, which is
  negative (between -4095 and -1); if the cell was read with a length other than 2,
  probe returns \<open>-EINVAL\<close>, that is -22. In each of the three cases the run contains no
  register access at all and no call of \<open>phy_driver_register\<close>.
\<close>

theorem probe_calibration_unavailable:
  assumes "run (ac200_ephy_probe K) w = (ret, evs)"
  shows "(Devm_nvmem_cell_get cell_id (ERR_PTR e) \<in> set evs \<longrightarrow>
            ret = errno_code e \<and> sint ret < 0 \<and> - 4095 \<le> sint ret \<and> accesses evs = [] \<and>
            (\<nexists>drv s. Phy_driver_register drv s \<in> set evs))
       \<and> (Nvmem_cell_read (ERR_PTR e) \<in> set evs \<longrightarrow>
            ret = errno_code e \<and> sint ret < 0 \<and> - 4095 \<le> sint ret \<and> accesses evs = [] \<and>
            (\<nexists>drv s. Phy_driver_register drv s \<in> set evs))
       \<and> (Nvmem_cell_read (PTR buf) \<in> set evs \<and> callen buf \<noteq> 2 \<longrightarrow>
            ret = - EINVAL \<and> sint ret = - 22 \<and> accesses evs = [] \<and>
            (\<nexists>drv s. Phy_driver_register drv s \<in> set evs))"
  using outcome_run [OF probe_outcome assms]
  unfolding probe_paths_def probe_prefix_def
  by (elim disjE exE conjE; simp add: EINVAL_def errno_code_range)

text \<open>One kernel for each case: no cell (-2), unreadable cell (-5), four-byte cell.\<close>

theorem probe_calibration_unavailable_witness:
  "Devm_nvmem_cell_get ''ephy_calib'' (ERR_PTR neg_ENOENT)
     \<in> set (snd (run (ac200_ephy_probe no_cell_kernel) w0))
   \<and> fst (run (ac200_ephy_probe no_cell_kernel) w0) = errno_code neg_ENOENT
   \<and> sint (fst (run (ac200_ephy_probe no_cell_kernel) w0)) < 0
   \<and> accesses (snd (run (ac200_ephy_probe no_cell_kernel) w0)) = []
   \<and> Nvmem_cell_read (ERR_PTR neg_EIO)
       \<in> set (snd (run (ac200_ephy_probe unreadable_cell_kernel) w0))
   \<and> fst (run (ac200_ephy_probe unreadable_cell_kernel) w0) = errno_code neg_EIO
   \<and> sint (fst (run (ac200_ephy_probe unreadable_cell_kernel) w0)) < 0
   \<and> accesses (snd (run (ac200_ephy_probe unreadable_cell_kernel) w0)) = []
   \<and> Nvmem_cell_read (PTR \<lparr>callen = 4, caldata = 0\<rparr>)
       \<in> set (snd (run (ac200_ephy_probe long_cell_kernel) w0))
   \<and> callen \<lparr>callen = 4, caldata = 0\<rparr> \<noteq> 2
   \<and> sint (fst (run (ac200_ephy_probe long_cell_kernel) w0)) = - 22
   \<and> accesses (snd (run (ac200_ephy_probe long_cell_kernel) w0)) = []"
proof -
  have 1: "Devm_nvmem_cell_get ''ephy_calib'' (ERR_PTR neg_ENOENT)
             \<in> set (snd (run (ac200_ephy_probe no_cell_kernel) w0))"
    by (simp add: run_no_cell)
  have 2: "Nvmem_cell_read (ERR_PTR neg_EIO)
             \<in> set (snd (run (ac200_ephy_probe unreadable_cell_kernel) w0))"
    by (simp add: run_unreadable_cell)
  have 3: "Nvmem_cell_read (PTR \<lparr>callen = 4, caldata = 0\<rparr>)
             \<in> set (snd (run (ac200_ephy_probe long_cell_kernel) w0))"
       "callen \<lparr>callen = 4, caldata = 0\<rparr> \<noteq> 2"
    by (simp_all add: run_long_cell)
  show ?thesis
    using 1 2 3
      probe_calibration_unavailable [where K = no_cell_kernel and w = w0
        and cell_id = "''ephy_calib''" and e = neg_ENOENT, OF run_collapse]
      probe_calibration_unavailable [where K = unreadable_cell_kernel and w = w0
        and e = neg_EIO, OF run_collapse]
      probe_calibration_unavailable [where K = long_cell_kernel and w = w0
        and buf = "\<lparr>callen = 4, caldata = 0\<rparr>", OF run_collapse]
    by blast
qed

text \<open>
  C4. In every run of probe: if an \<open>ac200_reg_write\<close> returned a non-zero status, probe
  returns that status, the failed write is the last event of the run, its register was
  accessed once, and \<open>phy_driver_register\<close> was not called; if \<open>phy_driver_register\<close>
  returned a non-zero status, probe returns that status and no registration succeeded.
  Whenever \<open>phy_driver_register\<close> was called, the register accesses of the run are the
  three writes, to \<open>AC200_SYS_EPHY_CTL0\<close>, \<open>AC200_SYS_EPHY_CTL1\<close> and \<open>AC200_EPHY_CTL\<close>, and
  every one of them had returned 0.
\<close>

theorem probe_stops_at_failure:
  assumes "run (ac200_ephy_probe K) w = (ret, evs)"
  shows "(Ac200_reg_write reg val r \<in> set evs \<and> r \<noteq> 0 \<longrightarrow>
            ret = r \<and> last evs = Ac200_reg_write reg val r \<and>
            length (filter (\<lambda>a. target_of a = Ac200 reg) (accesses evs)) = 1 \<and>
            (\<nexists>drv s. Phy_driver_register drv s \<in> set evs))
       \<and> (Phy_driver_register drv r \<in> set evs \<and> r \<noteq> 0 \<longrightarrow>
            ret = r \<and> (\<nexists>drv'. Phy_driver_register drv' 0 \<in> set evs))
       \<and> (Phy_driver_register drv r \<in> set evs \<longrightarrow>
            (\<exists>x. accesses evs = [Reg_write AC200_SYS_EPHY_CTL0 3,
                                 Reg_write AC200_SYS_EPHY_CTL1 0xF,
                                 Reg_write AC200_EPHY_CTL x]))
       \<and> (Phy_driver_register drv r \<in> set evs \<and> Ac200_reg_write reg val s \<in> set evs \<longrightarrow>
            s = 0)"
  using outcome_run [OF probe_outcome assms]
  unfolding probe_paths_def probe_prefix_def
  by (elim disjE exE conjE; simp; blast?)

text \<open>
  A kernel whose second write fails, one whose registration fails, and one where all
  succeeds.
\<close>

theorem probe_stops_at_failure_witness:
  "Ac200_reg_write AC200_SYS_EPHY_CTL1 0xF (- 5)
     \<in> set (snd (run (ac200_ephy_probe failing_ctl1_kernel) w0))
   \<and> (- 5 :: c_int) \<noteq> 0
   \<and> fst (run (ac200_ephy_probe failing_ctl1_kernel) w0) = - 5
   \<and> last (snd (run (ac200_ephy_probe failing_ctl1_kernel) w0))
       = Ac200_reg_write AC200_SYS_EPHY_CTL1 0xF (- 5)
   \<and> Phy_driver_register probe_drv (- 16)
       \<in> set (snd (run (ac200_ephy_probe failing_register_kernel) w0))
   \<and> (- 16 :: c_int) \<noteq> 0
   \<and> fst (run (ac200_ephy_probe failing_register_kernel) w0) = - 16
   \<and> Phy_driver_register probe_drv 0
       \<in> set (snd (run (ac200_ephy_probe (good_kernel 0)) w0))
   \<and> Ac200_reg_write AC200_SYS_EPHY_CTL0 3 0
       \<in> set (snd (run (ac200_ephy_probe (good_kernel 0)) w0))
   \<and> (\<exists>x. accesses (snd (run (ac200_ephy_probe (good_kernel 0)) w0)) =
         [Reg_write AC200_SYS_EPHY_CTL0 3, Reg_write AC200_SYS_EPHY_CTL1 0xF,
          Reg_write AC200_EPHY_CTL x])"
proof -
  have 1: "Ac200_reg_write AC200_SYS_EPHY_CTL1 0xF (- 5)
             \<in> set (snd (run (ac200_ephy_probe failing_ctl1_kernel) w0))"
    "(- 5 :: c_int) \<noteq> 0"
    by (simp_all add: run_failing_ctl1)
  have 2: "Phy_driver_register probe_drv (- 16)
             \<in> set (snd (run (ac200_ephy_probe failing_register_kernel) w0))"
    "(- 16 :: c_int) \<noteq> 0"
    by (simp_all add: run_failing_register)
  have 3: "Phy_driver_register probe_drv 0
             \<in> set (snd (run (ac200_ephy_probe (good_kernel 0)) w0))"
    "Ac200_reg_write AC200_SYS_EPHY_CTL0 3 0
       \<in> set (snd (run (ac200_ephy_probe (good_kernel 0)) w0))"
    by (simp_all add: run_good)
  show ?thesis
    using 1 2 3
      probe_stops_at_failure [where K = failing_ctl1_kernel and w = w0
        and reg = AC200_SYS_EPHY_CTL1 and val = "0xF" and r = "- 5", OF run_collapse]
      probe_stops_at_failure [where K = failing_register_kernel and w = w0
        and drv = probe_drv and r = "- 16", OF run_collapse]
      probe_stops_at_failure [where K = "good_kernel 0" and w = w0
        and drv = probe_drv and r = 0 and reg = AC200_SYS_EPHY_CTL0 and val = 3 and s = 0,
        OF run_collapse]
    by blast
qed

section \<open>Configuration: \<open>ac200_ephy_config_init\<close>\<close>

lemmas config_init_eval =
  ac200_ephy_config_init_def disable_intelligent_ieee_def disable_802_3az_ieee_def
  run_simps constant_defs

lemma config_init_run:
  assumes "run (ac200_ephy_config_init K i) w = (ret, evs)"
  shows "ret = 0 \<and> length evs = 28 \<and>
         (\<exists>r17 re r13. accesses evs = config_init_accesses i r17 re r13)"
  using outcome_run [OF config_init_outcome assms] .

subsection \<open>Runs against the concrete kernels\<close>

lemma run_config_good:
  "fst (run (ac200_ephy_config_init (good_kernel 0) i) w0) = 0"
  "accesses (snd (run (ac200_ephy_config_init (good_kernel 0) i) w0))
     = config_init_accesses i 0 0 0"
  by (simp_all add: config_init_eval config_init_accesses_def)

lemma run_config_failing_mdio:
  "run (ac200_ephy_config_init failing_mdio_kernel PHY_INTERFACE_MODE_RMII) w0 =
    (0, [Phy_write 0x1f 0x0100 (- 5), Phy_write 0x12 0x4824 (- 5),
      Phy_write 0x1f 0x0200 (- 5), Phy_write 0x18 0x0000 (- 5),
      Phy_write 0x1f 0x0600 (- 5), Phy_write 0x14 0x708f (- 5), Phy_write 0x13 0xF000 (- 5),
      Phy_write 0x15 0x1530 (- 5),
      Phy_write 0x1f 0x0800 (- 5), Phy_write 0x18 0x00bc (- 5),
      Phy_write 0x1f 0x0100 (- 5), Phy_read 0x17 0, Phy_write 0x17 0 (- 5),
      Phy_write 0x1f 0x0000 (- 5),
      Phy_write 0xd 0x7 (- 5), Phy_write 0xe 0x3c (- 5), Phy_write 0xd 0x4007 (- 5),
      Phy_read 0xe 0,
      Phy_write 0xd 0x7 (- 5), Phy_write 0xe 0x3c (- 5), Phy_write 0xd 0x4007 (- 5),
      Phy_write 0xe 0 (- 5),
      Phy_write 0x1f 0x0200 (- 5), Phy_write 0x18 0x0000 (- 5),
      Phy_write 0x1f 0x0000 (- 5),
      Ac200_reg_mod AC200_EPHY_CTL 0x800 0x800 0,
      Phy_read 0x13 0, Phy_write 0x13 0x1000 (- 5)])"
  by (simp add: config_init_eval)

lemmas register_kernel_simps = final_state_def mfd_kernel_def mdio_kernel_def all_registers_def

lemma final_ctl:
  "final_state (ac200_ephy_config_init (mfd_kernel 0) i) h =
     (kstate h)(AC200_EPHY_CTL := ac200_reg_mod_value (kstate h AC200_EPHY_CTL) 0x800
        (if i = PHY_INTERFACE_MODE_RMII then 0x800 else 0))"
  by (simp add: register_kernel_simps config_init_eval xmii_sel_value)

lemma run_mod_fails:
  "run (ac200_ephy_config_init (mfd_kernel (- 5)) PHY_INTERFACE_MODE_RMII) (all_registers 0) =
    (0, [Phy_write 0x1f 0x0100 0, Phy_write 0x12 0x4824 0,
      Phy_write 0x1f 0x0200 0, Phy_write 0x18 0x0000 0,
      Phy_write 0x1f 0x0600 0, Phy_write 0x14 0x708f 0, Phy_write 0x13 0xF000 0,
      Phy_write 0x15 0x1530 0,
      Phy_write 0x1f 0x0800 0, Phy_write 0x18 0x00bc 0,
      Phy_write 0x1f 0x0100 0, Phy_read 0x17 0, Phy_write 0x17 0 0,
      Phy_write 0x1f 0x0000 0,
      Phy_write 0xd 0x7 0, Phy_write 0xe 0x3c 0, Phy_write 0xd 0x4007 0,
      Phy_read 0xe 0,
      Phy_write 0xd 0x7 0, Phy_write 0xe 0x3c 0, Phy_write 0xd 0x4007 0,
      Phy_write 0xe 0 0,
      Phy_write 0x1f 0x0200 0, Phy_write 0x18 0x0000 0,
      Phy_write 0x1f 0x0000 0,
      Ac200_reg_mod AC200_EPHY_CTL 0x800 0x800 (- 5),
      Phy_read 0x13 0, Phy_write 0x13 0x1000 0])"
  "final_state (ac200_ephy_config_init (mfd_kernel (- 5)) PHY_INTERFACE_MODE_RMII)
     (all_registers 0) AC200_EPHY_CTL = 0"
  by (simp_all add: register_kernel_simps config_init_eval)

lemma run_read_fails:
  "run (ac200_ephy_config_init (mdio_kernel (- 5)) PHY_INTERFACE_MODE_RMII) (all_registers 0) =
    (0, [Phy_write 0x1f 0x0100 0, Phy_write 0x12 0x4824 0,
      Phy_write 0x1f 0x0200 0, Phy_write 0x18 0x0000 0,
      Phy_write 0x1f 0x0600 0, Phy_write 0x14 0x708f 0, Phy_write 0x13 0xF000 0,
      Phy_write 0x15 0x1530 0,
      Phy_write 0x1f 0x0800 0, Phy_write 0x18 0x00bc 0,
      Phy_write 0x1f 0x0100 0, Phy_read 0x17 (- 5), Phy_write 0x17 0xFFF3 0,
      Phy_write 0x1f 0x0000 0,
      Phy_write 0xd 0x7 0, Phy_write 0xe 0x3c 0, Phy_write 0xd 0x4007 0,
      Phy_read 0xe (- 5),
      Phy_write 0xd 0x7 0, Phy_write 0xe 0x3c 0, Phy_write 0xd 0x4007 0,
      Phy_write 0xe 0xFFF9 0,
      Phy_write 0x1f 0x0200 0, Phy_write 0x18 0x0000 0,
      Phy_write 0x1f 0x0000 0,
      Ac200_reg_mod AC200_EPHY_CTL 0x800 0x800 0,
      Phy_read 0x13 (- 5), Phy_write 0x13 0xFFFB 0])"
  "final_state (ac200_ephy_config_init (mdio_kernel (- 5)) PHY_INTERFACE_MODE_RMII)
     (all_registers 0) 0x17 = 0xFFF3"
  by (simp_all add: register_kernel_simps config_init_eval)

lemma run_read_ok:
  "accesses (snd (run (ac200_ephy_config_init (mdio_kernel 0) PHY_INTERFACE_MODE_MII)
     (all_registers 0x000F))) =
     [Mdio_write 0x1f 0x0100, Mdio_write 0x12 0x4824,
      Mdio_write 0x1f 0x0200, Mdio_write 0x18 0x0000,
      Mdio_write 0x1f 0x0600, Mdio_write 0x14 0x708f, Mdio_write 0x13 0xF000,
      Mdio_write 0x15 0x1530,
      Mdio_write 0x1f 0x0800, Mdio_write 0x18 0x00bc,
      Mdio_write 0x1f 0x0100, Mdio_read 0x17 0xF, Mdio_write 0x17 0x7,
      Mdio_write 0x1f 0x0000,
      Mdio_write 0xd 0x7, Mdio_write 0xe 0x3c, Mdio_write 0xd 0x4007, Mdio_read 0xe 0x3c,
      Mdio_write 0xd 0x7, Mdio_write 0xe 0x3c, Mdio_write 0xd 0x4007,
      Mdio_write 0xe 0x3c,
      Mdio_write 0x1f 0x0200, Mdio_write 0x18 0x0000,
      Mdio_write 0x1f 0x0000,
      Reg_mod AC200_EPHY_CTL 0x800 0,
      Mdio_read 0x13 0xF000, Mdio_write 0x13 0xF000]"
  by (simp add: register_kernel_simps config_init_eval)

subsection \<open>The fixed sequence\<close>

text \<open>
  C7. Two runs of \<open>ac200_ephy_config_init\<close> with the same interface mode, against any two
  kernels (of any state types) and from any two worlds, in which the register reads
  returned the same values, issue the same sequence of writes: the same MDIO registers
  and values and the same \<open>ac200_reg_mod\<close>, in the same order. Both return the same
  result. Nothing else the kernels do, the statuses of the writes included, has any
  influence.
\<close>

theorem config_init_deterministic:
  assumes "run (ac200_ephy_config_init K1 i) w1 = (ret1, evs1)"
    and "run (ac200_ephy_config_init K2 i) w2 = (ret2, evs2)"
    and "reads evs1 = reads evs2"
  shows "writes evs1 = writes evs2 \<and> ret1 = ret2"
proof -
  from config_init_run [OF assms(1)] obtain a b c
    where 1: "ret1 = 0" "accesses evs1 = config_init_accesses i a b c" by blast
  from config_init_run [OF assms(2)] obtain a' b' c'
    where 2: "ret2 = 0" "accesses evs2 = config_init_accesses i a' b' c'" by blast
  from assms(3) have "a = a' \<and> b = b' \<and> c = c'"
    by (simp add: reads_def 1 2 config_init_accesses_def)
  then show ?thesis
    by (simp add: writes_def 1 2)
qed

text \<open>
  A kernel where every call succeeds and one where every MDIO write fails: the reads
  return 0 in both, and the writes issued are the same.
\<close>

theorem config_init_deterministic_witness:
  "reads (snd (run (ac200_ephy_config_init (good_kernel 0) PHY_INTERFACE_MODE_RMII) w0))
     = reads (snd (run (ac200_ephy_config_init failing_mdio_kernel
                          PHY_INTERFACE_MODE_RMII) w0))
   \<and> writes (snd (run (ac200_ephy_config_init (good_kernel 0) PHY_INTERFACE_MODE_RMII) w0))
     = writes (snd (run (ac200_ephy_config_init failing_mdio_kernel
                           PHY_INTERFACE_MODE_RMII) w0))"
proof -
  have 1: "reads (snd (run (ac200_ephy_config_init (good_kernel 0)
                              PHY_INTERFACE_MODE_RMII) w0))
     = reads (snd (run (ac200_ephy_config_init failing_mdio_kernel
                          PHY_INTERFACE_MODE_RMII) w0))"
    by (simp add: reads_def run_config_good run_config_failing_mdio config_init_accesses_def)
  show ?thesis
    using 1 config_init_deterministic [OF run_collapse run_collapse 1] by simp
qed

subsection \<open>Power saving and energy-efficient Ethernet\<close>

lemma ucast_u16_int: "(ucast (ucast (v :: u16) :: c_int) :: u16) = v"
  by (rule bit_word_eqI) (auto simp add: bit_simps)

text \<open>
  C8, as stated, fails on a run in which a read fails: the routine does not test what
  \<open>phy_read\<close> returns. Against the MDIO kernel whose reads return \<open>-EIO\<close>, with register
  0x17 holding 0, the routine stores 0xFFF3 (the low 16 bits of -5 with bit 3 cleared)
  in register 0x17, so bits of the register other than bit 3 have changed, bit 0 among
  them.
\<close>

theorem config_init_read_failure_counterexample:
  "Phy_read 0x17 (- 5)
     \<in> set (snd (run (ac200_ephy_config_init (mdio_kernel (- 5)) PHY_INTERFACE_MODE_RMII)
                   (all_registers 0)))
   \<and> sint (- 5 :: c_int) < 0
   \<and> kstate (all_registers 0 :: (u32 \<Rightarrow> u16) world) 0x17 = 0
   \<and> final_state (ac200_ephy_config_init (mdio_kernel (- 5)) PHY_INTERFACE_MODE_RMII)
        (all_registers 0) 0x17 = 0xFFF3
   \<and> \<not> bit (0 :: u16) 0 \<and> bit (0xFFF3 :: u16) 0"
  by (simp add: run_read_fails) (simp add: all_registers_def)

text \<open>
  C8, amended. In every run of \<open>ac200_ephy_config_init\<close> the eleventh to twenty-fifth
  register accesses are: select page 1 (0x0100 to register 0x1f), read register 0x17,
  write back the low 16 bits of what the read returned with bit 3 cleared, select page
  0; select MMD device 7, register 0x3c, through registers 0xd and 0xe (7, 0x3c,
  0x4007), read the data register 0xe, select the same MMD register again and write
  back the low 16 bits of what the read returned with bit 1 cleared; select page 2,
  write 0 to register 0x18, and select page 0. When both reads succeeded, returning the
  registers' contents \<open>v17\<close> and \<open>ve\<close>, the values written back are \<open>v17\<close> with exactly bit 3
  cleared and \<open>ve\<close> with exactly bit 1 cleared, every other bit as in the register.
\<close>

theorem config_init_disables_ieee:
  assumes "run (ac200_ephy_config_init K i) w = (ret, evs)"
  shows "(\<exists>r17 re.
     take 15 (drop 10 (accesses evs)) =
       [Mdio_write 0x1f 0x0100, Mdio_read 0x17 r17,
        Mdio_write 0x17 (unset_bit 3 (ucast r17)),
        Mdio_write 0x1f 0x0000,
        Mdio_write 0xd 0x7, Mdio_write 0xe 0x3c, Mdio_write 0xd 0x4007, Mdio_read 0xe re,
        Mdio_write 0xd 0x7, Mdio_write 0xe 0x3c, Mdio_write 0xd 0x4007,
        Mdio_write 0xe (unset_bit 1 (ucast re)),
        Mdio_write 0x1f 0x0200, Mdio_write 0x18 0x0000,
        Mdio_write 0x1f 0x0000])
   \<and> (Mdio_read 0x17 (ucast v17) \<in> set (accesses evs) \<and>
      Mdio_read 0xe (ucast ve) \<in> set (accesses evs) \<longrightarrow>
        take 15 (drop 10 (accesses evs)) =
          [Mdio_write 0x1f 0x0100, Mdio_read 0x17 (ucast v17),
           Mdio_write 0x17 (unset_bit 3 v17),
           Mdio_write 0x1f 0x0000,
           Mdio_write 0xd 0x7, Mdio_write 0xe 0x3c, Mdio_write 0xd 0x4007,
           Mdio_read 0xe (ucast ve),
           Mdio_write 0xd 0x7, Mdio_write 0xe 0x3c, Mdio_write 0xd 0x4007,
           Mdio_write 0xe (unset_bit 1 ve),
           Mdio_write 0x1f 0x0200, Mdio_write 0x18 0x0000,
           Mdio_write 0x1f 0x0000]
        \<and> (\<forall>n. bit (unset_bit 3 v17) n = (n \<noteq> 3 \<and> bit v17 n))
        \<and> (\<forall>n. bit (unset_bit 1 ve) n = (n \<noteq> 1 \<and> bit ve n)))"
   (is "?A \<and> (?H \<longrightarrow> ?B)")
proof -
  from config_init_run [OF assms] obtain r17 re r13
    where acc: "accesses evs = config_init_accesses i r17 re r13"
    by blast
  have A: ?A
    by (simp add: acc config_init_accesses_def)
  have B: ?B if ?H
  proof -
    from that have "r17 = ucast v17" "re = ucast ve"
      by (simp_all add: acc config_init_accesses_def)
    then show ?thesis
      by (auto simp add: acc config_init_accesses_def ucast_u16_int bit_simps)
  qed
  from A B show ?thesis by blast
qed

text \<open>
  The MDIO kernel with working reads, every register holding 0x000F: register 0x17 is
  read as 0x000F and written back as 0x0007.
\<close>

theorem config_init_disables_ieee_witness:
  "Mdio_read 0x17 (ucast (0x000F :: u16))
     \<in> set (accesses (snd (run (ac200_ephy_config_init (mdio_kernel 0) PHY_INTERFACE_MODE_MII)
                            (all_registers 0x000F))))
   \<and> Mdio_read 0xe (ucast (0x003C :: u16))
     \<in> set (accesses (snd (run (ac200_ephy_config_init (mdio_kernel 0) PHY_INTERFACE_MODE_MII)
                            (all_registers 0x000F))))
   \<and> Mdio_write 0x17 (unset_bit 3 0x000F)
     \<in> set (take 15 (drop 10 (accesses (snd (run (ac200_ephy_config_init (mdio_kernel 0)
                PHY_INTERFACE_MODE_MII) (all_registers 0x000F))))))
   \<and> Mdio_write 0xe (unset_bit 1 0x003C)
     \<in> set (take 15 (drop 10 (accesses (snd (run (ac200_ephy_config_init (mdio_kernel 0)
                PHY_INTERFACE_MODE_MII) (all_registers 0x000F))))))"
proof -
  have 1: "Mdio_read 0x17 (ucast (0x000F :: u16))
     \<in> set (accesses (snd (run (ac200_ephy_config_init (mdio_kernel 0) PHY_INTERFACE_MODE_MII)
                            (all_registers 0x000F))))"
    "Mdio_read 0xe (ucast (0x003C :: u16))
     \<in> set (accesses (snd (run (ac200_ephy_config_init (mdio_kernel 0) PHY_INTERFACE_MODE_MII)
                            (all_registers 0x000F))))"
    by (simp_all add: run_read_ok)
  from 1 config_init_disables_ieee [where K = "mdio_kernel 0" and i = PHY_INTERFACE_MODE_MII
      and w = "all_registers 0x000F" and ?v17.0 = "0x000F" and ve = "0x003C", OF run_collapse]
  have "take 15 (drop 10 (accesses (snd (run (ac200_ephy_config_init (mdio_kernel 0)
                PHY_INTERFACE_MODE_MII) (all_registers 0x000F))))) =
          [Mdio_write 0x1f 0x0100, Mdio_read 0x17 (ucast (0x000F :: u16)),
           Mdio_write 0x17 (unset_bit 3 0x000F),
           Mdio_write 0x1f 0x0000,
           Mdio_write 0xd 0x7, Mdio_write 0xe 0x3c, Mdio_write 0xd 0x4007,
           Mdio_read 0xe (ucast (0x003C :: u16)),
           Mdio_write 0xd 0x7, Mdio_write 0xe 0x3c, Mdio_write 0xd 0x4007,
           Mdio_write 0xe (unset_bit 1 0x003C),
           Mdio_write 0x1f 0x0200, Mdio_write 0x18 0x0000,
           Mdio_write 0x1f 0x0000]"
    by blast
  with 1 show ?thesis by simp
qed

subsection \<open>The interface mode\<close>

lemma reg_mod_bits_gen:
  "bit (ac200_reg_mod_value old (push_bit k 1) val) n \<longleftrightarrow>
     (if n = k then bit val k else bit old n)"
  unfolding ac200_reg_mod_value_def
  by (auto simp add: bit_simps dest: bit_imp_le_length)

lemma reg_mod_bits:
  "bit (ac200_reg_mod_value old 0x800 val) n \<longleftrightarrow>
     (if n = 11 then bit val 11 else bit old n)"
  using reg_mod_bits_gen [of old 11 val n] by simp

text \<open>
  C5, as stated, fails on a run in which \<open>ac200_reg_mod\<close> fails: the routine ignores the
  status of the call. Against the register kernel whose \<open>ac200_reg_mod\<close> returns \<open>-EIO\<close>,
  in RMII mode and with \<open>AC200_EPHY_CTL\<close> holding 0, the routine returns 0 and bit 11 of
  the register is not set.
\<close>

theorem config_init_reg_mod_failure_counterexample:
  "Ac200_reg_mod AC200_EPHY_CTL 0x800 0x800 (- 5)
     \<in> set (snd (run (ac200_ephy_config_init (mfd_kernel (- 5)) PHY_INTERFACE_MODE_RMII)
                   (all_registers 0)))
   \<and> sint (- 5 :: c_int) < 0
   \<and> fst (run (ac200_ephy_config_init (mfd_kernel (- 5)) PHY_INTERFACE_MODE_RMII)
            (all_registers 0)) = 0
   \<and> \<not> bit (final_state (ac200_ephy_config_init (mfd_kernel (- 5)) PHY_INTERFACE_MODE_RMII)
              (all_registers 0) AC200_EPHY_CTL) 11"
  by (simp add: run_mod_fails)

text \<open>
  C5, amended. In every run of \<open>ac200_ephy_config_init\<close> the only access to
  \<open>AC200_EPHY_CTL\<close> is one call of \<open>ac200_reg_mod\<close> with mask \<open>AC200_EPHY_XMII_SEL\<close> (bit 11)
  and the value \<open>AC200_EPHY_XMII_SEL\<close> when the interface mode is RMII, 0 otherwise; the
  status of the call is not examined. When the call succeeds, doing the read-modify-write
  of the parent driver, then whatever the registers held before (\<open>h\<close>) bit 11 of
  \<open>AC200_EPHY_CTL\<close> is afterwards set if and only if the mode is RMII, every other bit \<open>n\<close>
  of it is as it was, and so is every other AC200 register. The mode test is the only
  branch of the routine: two modes other than RMII give the same function, and any two
  runs, whatever the mode, the kernel and the values read, access the same registers in
  the same order.
\<close>

theorem config_init_xmii_sel:
  assumes "run (ac200_ephy_config_init K i) w = (ret, evs)"
  shows "filter (\<lambda>a. target_of a = Ac200 AC200_EPHY_CTL) (accesses evs) =
           [Reg_mod AC200_EPHY_CTL (ucast AC200_EPHY_XMII_SEL)
              (if i = PHY_INTERFACE_MODE_RMII then ucast AC200_EPHY_XMII_SEL else 0)]
       \<and> (ucast AC200_EPHY_XMII_SEL :: u16) = push_bit 11 1
       \<and> (bit (final_state (ac200_ephy_config_init (mfd_kernel 0) i) h AC200_EPHY_CTL) 11
            \<longleftrightarrow> i = PHY_INTERFACE_MODE_RMII)
       \<and> (n \<noteq> 11 \<longrightarrow>
            (bit (final_state (ac200_ephy_config_init (mfd_kernel 0) i) h AC200_EPHY_CTL) n
               \<longleftrightarrow> bit (kstate h AC200_EPHY_CTL) n))
       \<and> (reg \<noteq> AC200_EPHY_CTL \<longrightarrow>
            final_state (ac200_ephy_config_init (mfd_kernel 0) i) h reg = kstate h reg)
       \<and> (i \<noteq> PHY_INTERFACE_MODE_RMII \<and> i' \<noteq> PHY_INTERFACE_MODE_RMII \<longrightarrow>
            ac200_ephy_config_init K i = ac200_ephy_config_init K i')
       \<and> (run (ac200_ephy_config_init K' i') w' = (ret', evs') \<longrightarrow>
            map target_of (accesses evs) = map target_of (accesses evs'))"
proof -
  from config_init_run [OF assms] obtain a b c
    where 1: "accesses evs = config_init_accesses i a b c" by blast
  have A: "filter (\<lambda>a. target_of a = Ac200 AC200_EPHY_CTL) (accesses evs) =
           [Reg_mod AC200_EPHY_CTL (ucast AC200_EPHY_XMII_SEL)
              (if i = PHY_INTERFACE_MODE_RMII then ucast AC200_EPHY_XMII_SEL else 0)]"
    by (simp add: 1 config_init_accesses_def xmii_sel_value)
  have M: "(ucast AC200_EPHY_XMII_SEL :: u16) = push_bit 11 1"
    by (simp add: xmii_sel_value)
  have B: "bit (final_state (ac200_ephy_config_init (mfd_kernel 0) i) h AC200_EPHY_CTL) n
             \<longleftrightarrow> (if n = 11 then i = PHY_INTERFACE_MODE_RMII else bit (kstate h AC200_EPHY_CTL) n)"
    for n
    by (simp add: final_ctl reg_mod_bits)
  have R: "final_state (ac200_ephy_config_init (mfd_kernel 0) i) h reg = kstate h reg"
    if "reg \<noteq> AC200_EPHY_CTL"
    using that by (simp add: final_ctl)
  have C: "ac200_ephy_config_init K i = ac200_ephy_config_init K i'"
    if "i \<noteq> PHY_INTERFACE_MODE_RMII \<and> i' \<noteq> PHY_INTERFACE_MODE_RMII"
    using that by (simp add: ac200_ephy_config_init_def)
  have D: "map target_of (accesses evs) = map target_of (accesses evs')"
    if "run (ac200_ephy_config_init K' i') w' = (ret', evs')"
  proof -
    from config_init_run [OF that] obtain a' b' c'
      where 2: "accesses evs' = config_init_accesses i' a' b' c'" by blast
    show ?thesis by (simp add: 1 2 config_init_accesses_def)
  qed
  from A M B [of 11] B [of n] R C D show ?thesis by simp
qed

text \<open>
  RMII and MII against the all-succeeding kernel: the call carries 0x800 and 0. Against
  the register kernel, RMII with every register holding 0x0016 sets bit 11 and leaves
  bit 4 and \<open>AC200_SYS_EPHY_CTL0\<close>; MII with every register holding 0xFFFF clears bit 11.
  MII and GMII give the same function. The run where every MDIO write fails accesses
  the same registers.
\<close>

theorem config_init_xmii_sel_witness:
  "(4 :: nat) \<noteq> 11
   \<and> AC200_SYS_EPHY_CTL0 \<noteq> AC200_EPHY_CTL
   \<and> PHY_INTERFACE_MODE_MII \<noteq> PHY_INTERFACE_MODE_RMII
   \<and> PHY_INTERFACE_MODE_GMII \<noteq> PHY_INTERFACE_MODE_RMII
   \<and> filter (\<lambda>a. target_of a = Ac200 AC200_EPHY_CTL)
        (accesses (snd (run (ac200_ephy_config_init (good_kernel 0)
                              PHY_INTERFACE_MODE_RMII) w0)))
       = [Reg_mod AC200_EPHY_CTL 0x800 0x800]
   \<and> filter (\<lambda>a. target_of a = Ac200 AC200_EPHY_CTL)
        (accesses (snd (run (ac200_ephy_config_init (good_kernel 0)
                              PHY_INTERFACE_MODE_MII) w0)))
       = [Reg_mod AC200_EPHY_CTL 0x800 0]
   \<and> bit (final_state (ac200_ephy_config_init (mfd_kernel 0) PHY_INTERFACE_MODE_RMII)
            (all_registers 0x0016) AC200_EPHY_CTL) 11
   \<and> \<not> bit (final_state (ac200_ephy_config_init (mfd_kernel 0) PHY_INTERFACE_MODE_MII)
              (all_registers 0xFFFF) AC200_EPHY_CTL) 11
   \<and> (bit (final_state (ac200_ephy_config_init (mfd_kernel 0) PHY_INTERFACE_MODE_RMII)
             (all_registers 0x0016) AC200_EPHY_CTL) 4
        \<longleftrightarrow> bit (kstate (all_registers 0x0016 :: (ac200_reg \<Rightarrow> u16) world) AC200_EPHY_CTL) 4)
   \<and> final_state (ac200_ephy_config_init (mfd_kernel 0) PHY_INTERFACE_MODE_RMII)
        (all_registers 0x0016) AC200_SYS_EPHY_CTL0 = 0x0016
   \<and> ac200_ephy_config_init (good_kernel 0) PHY_INTERFACE_MODE_MII
       = ac200_ephy_config_init (good_kernel 0) PHY_INTERFACE_MODE_GMII
   \<and> map target_of (accesses (snd (run (ac200_ephy_config_init (good_kernel 0)
                                          PHY_INTERFACE_MODE_RMII) w0)))
       = map target_of (accesses (snd (run (ac200_ephy_config_init failing_mdio_kernel
                                              PHY_INTERFACE_MODE_RMII) w0)))"
proof -
  have 0: "(4 :: nat) \<noteq> 11" "AC200_SYS_EPHY_CTL0 \<noteq> AC200_EPHY_CTL"
    "PHY_INTERFACE_MODE_MII \<noteq> PHY_INTERFACE_MODE_RMII"
    "PHY_INTERFACE_MODE_GMII \<noteq> PHY_INTERFACE_MODE_RMII"
    by simp_all
  have k: "kstate (all_registers 0x0016 :: (ac200_reg \<Rightarrow> u16) world) AC200_SYS_EPHY_CTL0 = 0x0016"
    by (simp add: all_registers_def)
  note a = config_init_xmii_sel [where K = "good_kernel 0" and w = w0
        and i = PHY_INTERFACE_MODE_RMII and h = "all_registers 0x0016"
        and n = 4 and reg = AC200_SYS_EPHY_CTL0
        and K' = failing_mdio_kernel and w' = w0 and i' = PHY_INTERFACE_MODE_RMII
        and ret' = "fst (run (ac200_ephy_config_init failing_mdio_kernel
                               PHY_INTERFACE_MODE_RMII) w0)"
        and evs' = "snd (run (ac200_ephy_config_init failing_mdio_kernel
                               PHY_INTERFACE_MODE_RMII) w0)",
        OF run_collapse]
  note b = config_init_xmii_sel [where K = "good_kernel 0" and w = w0
        and i = PHY_INTERFACE_MODE_MII and i' = PHY_INTERFACE_MODE_GMII
        and h = "all_registers 0xFFFF" and n = 4 and reg = AC200_SYS_EPHY_CTL0
        and K' = "good_kernel 0" and w' = w0
        and ret' = "fst (run (ac200_ephy_config_init (good_kernel 0)
                               PHY_INTERFACE_MODE_GMII) w0)"
        and evs' = "snd (run (ac200_ephy_config_init (good_kernel 0)
                               PHY_INTERFACE_MODE_GMII) w0)",
        OF run_collapse]
  from a k have 1:
    "filter (\<lambda>a. target_of a = Ac200 AC200_EPHY_CTL)
        (accesses (snd (run (ac200_ephy_config_init (good_kernel 0)
                              PHY_INTERFACE_MODE_RMII) w0)))
       = [Reg_mod AC200_EPHY_CTL 0x800 0x800]"
    "bit (final_state (ac200_ephy_config_init (mfd_kernel 0) PHY_INTERFACE_MODE_RMII)
            (all_registers 0x0016) AC200_EPHY_CTL) 11"
    "bit (final_state (ac200_ephy_config_init (mfd_kernel 0) PHY_INTERFACE_MODE_RMII)
             (all_registers 0x0016) AC200_EPHY_CTL) 4
        \<longleftrightarrow> bit (kstate (all_registers 0x0016 :: (ac200_reg \<Rightarrow> u16) world) AC200_EPHY_CTL) 4"
    "final_state (ac200_ephy_config_init (mfd_kernel 0) PHY_INTERFACE_MODE_RMII)
        (all_registers 0x0016) AC200_SYS_EPHY_CTL0 = 0x0016"
    "map target_of (accesses (snd (run (ac200_ephy_config_init (good_kernel 0)
                                          PHY_INTERFACE_MODE_RMII) w0)))
       = map target_of (accesses (snd (run (ac200_ephy_config_init failing_mdio_kernel
                                              PHY_INTERFACE_MODE_RMII) w0)))"
    by (simp_all add: xmii_sel_value)
  from b [THEN conjunct1] have 2:
    "filter (\<lambda>a. target_of a = Ac200 AC200_EPHY_CTL)
        (accesses (snd (run (ac200_ephy_config_init (good_kernel 0)
                              PHY_INTERFACE_MODE_MII) w0)))
       = [Reg_mod AC200_EPHY_CTL 0x800 0]"
    by (simp add: xmii_sel_value)
  from b [THEN conjunct2, THEN conjunct2, THEN conjunct1] have 3:
    "\<not> bit (final_state (ac200_ephy_config_init (mfd_kernel 0) PHY_INTERFACE_MODE_MII)
              (all_registers 0xFFFF) AC200_EPHY_CTL) 11"
    by simp
  from b 0 have 4: "ac200_ephy_config_init (good_kernel 0) PHY_INTERFACE_MODE_MII
       = ac200_ephy_config_init (good_kernel 0) PHY_INTERFACE_MODE_GMII"
    by blast
  from 0 1 2 3 4 show ?thesis by blast
qed

section \<open>Failed writes\<close>




section \<open>Teardown\<close>

lemma remove_outcome:
  "outcome (ac200_ephy_remove K) (\<lambda>r evs. r = 0 \<and> (\<exists>r1 r2 r3. evs =
     [Phy_driver_unregister,
      Ac200_reg_write AC200_EPHY_CTL (ucast AC200_EPHY_SHUTDOWN) r1,
      Ac200_reg_write AC200_SYS_EPHY_CTL1 0 r2,
      Ac200_reg_write AC200_SYS_EPHY_CTL0 0 r3]))"
  unfolding ac200_ephy_remove_def kernel_calls
  by (intro outcome_rules) simp

text \<open>
  C10. \<open>ac200_ephy_remove\<close> returns 0 from every world and against every kernel, hence
  also when some or all of its three \<open>ac200_reg_write\<close> calls return an error: the
  statuses are dropped.
\<close>

theorem remove_returns_0: "result (ac200_ephy_remove K) w = 0"
  using outcomeD [OF remove_outcome, of K w] by simp

text \<open>
  An instance: all three power-down writes fail with \<open>-EIO\<close>, as the trace shows, and
  the caller still gets 0.
\<close>

lemma remove_hides_failures:
  "emitted (ac200_ephy_remove failing_reg_kernel) w0 =
     [Phy_driver_unregister,
      Ac200_reg_write AC200_EPHY_CTL 1 (- 5),
      Ac200_reg_write AC200_SYS_EPHY_CTL1 0 (- 5),
      Ac200_reg_write AC200_SYS_EPHY_CTL0 0 (- 5)]
   \<and> result (ac200_ephy_remove failing_reg_kernel) w0 = 0"
  by (simp add: ac200_ephy_remove_def run_simps constant_defs)

text \<open>
  C6. Every run of \<open>ac200_ephy_remove\<close> consists of four calls, in this order:
  \<open>phy_driver_unregister\<close>, then the write of the shutdown bit (the value 1) to
  \<open>AC200_EPHY_CTL\<close>, then 0 to \<open>AC200_SYS_EPHY_CTL1\<close>, then 0 to \<open>AC200_SYS_EPHY_CTL0\<close>. So
  the driver is unregistered before any power-down write and never after one. The
  registers are written in the reverse of the order in which a probe that registered
  the driver wrote them.
\<close>

theorem remove_order:
  "(\<exists>r1 r2 r3. emitted (ac200_ephy_remove K) w =
      [Phy_driver_unregister,
       Ac200_reg_write AC200_EPHY_CTL (ucast AC200_EPHY_SHUTDOWN) r1,
       Ac200_reg_write AC200_SYS_EPHY_CTL1 0 r2,
       Ac200_reg_write AC200_SYS_EPHY_CTL0 0 r3])
   \<and> (ucast AC200_EPHY_SHUTDOWN :: u16) = 1
   \<and> (run (ac200_ephy_probe K') w' = (ret', evs') \<and> Phy_driver_register drv 0 \<in> set evs' \<longrightarrow>
        map target_of (accesses (emitted (ac200_ephy_remove K) w))
          = rev (map target_of (accesses evs')))"
proof -
  from outcomeD [OF remove_outcome, of K w] obtain r1 r2 r3 where
    1: "emitted (ac200_ephy_remove K) w =
      [Phy_driver_unregister,
       Ac200_reg_write AC200_EPHY_CTL (ucast AC200_EPHY_SHUTDOWN) r1,
       Ac200_reg_write AC200_SYS_EPHY_CTL1 0 r2,
       Ac200_reg_write AC200_SYS_EPHY_CTL0 0 r3]" by blast
  have 2: "map target_of (accesses (emitted (ac200_ephy_remove K) w))
          = rev (map target_of (accesses evs'))"
    if "run (ac200_ephy_probe K') w' = (ret', evs')" "Phy_driver_register drv 0 \<in> set evs'"
    using outcome_run [OF probe_outcome that(1)] that(2)
    unfolding probe_paths_def probe_prefix_def 1
    by (elim disjE exE conjE; simp)
  from 1 2 show ?thesis by (simp add: shutdown_value)
qed

text \<open>Probe, then remove, against the kernel where everything succeeds.\<close>

theorem remove_order_witness:
  "Phy_driver_register probe_drv 0
     \<in> set (snd (run (ac200_ephy_probe (good_kernel 0)) w0))
   \<and> map target_of (accesses (emitted (ac200_ephy_remove (good_kernel 0)) w0))
       = rev (map target_of (accesses (snd (run (ac200_ephy_probe (good_kernel 0)) w0))))
   \<and> rev (map target_of (accesses (snd (run (ac200_ephy_probe (good_kernel 0)) w0))))
       = [Ac200 AC200_EPHY_CTL, Ac200 AC200_SYS_EPHY_CTL1, Ac200 AC200_SYS_EPHY_CTL0]"
proof -
  have 1: "Phy_driver_register probe_drv 0
             \<in> set (snd (run (ac200_ephy_probe (good_kernel 0)) w0))"
    by (simp add: run_good)
  have 2: "rev (map target_of (accesses (snd (run (ac200_ephy_probe (good_kernel 0)) w0))))
       = [Ac200 AC200_EPHY_CTL, Ac200 AC200_SYS_EPHY_CTL1, Ac200 AC200_SYS_EPHY_CTL0]"
    by (simp add: run_good probe_prefix_def)
  show ?thesis
    using 1 2
      remove_order [where K = "good_kernel 0" and w = w0 and K' = "good_kernel 0"
        and w' = w0 and ret' = "fst (run (ac200_ephy_probe (good_kernel 0)) w0)"
        and evs' = "snd (run (ac200_ephy_probe (good_kernel 0)) w0)" and drv = probe_drv]
    by (simp only: run_collapse [symmetric] simp_thms)
qed

end
